theory Spec2Isabelle
  imports Complex_Main "HOL-Library.AList"
begin

section \<open>Echoes of Xylos: entities, items and skills\<close>

text \<open>
  The development follows \<^verbatim>\<open>EchoesOfXylos.py\<close>. Python integers are \<^typ>\<open>int\<close>,
  strings are \<^typ>\<open>string\<close>. Console output (\<^verbatim>\<open>print\<close>, \<^verbatim>\<open>display_message\<close>,
  \<^verbatim>\<open>clear_screen\<close>, \<^verbatim>\<open>time.sleep\<close>) changes no game state and is left out, as
  are the description strings of items and skills, which are only ever printed.
\<close>

subsection \<open>Game configuration\<close>

definition MAX_ENEMIES_PER_LEVEL :: int where "MAX_ENEMIES_PER_LEVEL = 7"
definition MAX_ITEMS_PER_LEVEL :: int where "MAX_ITEMS_PER_LEVEL = 5"
definition INITIAL_PLAYER_ENERGY :: int where "INITIAL_PLAYER_ENERGY = 50"
definition XP_TO_LEVEL_UP_BASE :: int where "XP_TO_LEVEL_UP_BASE = 50"
definition XP_LEVEL_MULTIPLIER :: rat where "XP_LEVEL_MULTIPLIER = 3 / 2"
definition MAX_ROOMS :: nat where "MAX_ROOMS = 10"
definition ROOM_MIN_SIZE :: int where "ROOM_MIN_SIZE = 5"
definition ROOM_MAX_SIZE :: int where "ROOM_MAX_SIZE = 10"
definition TRAP_DAMAGE_BASE :: int where "TRAP_DAMAGE_BASE = 15"

subsection \<open>Items\<close>

text \<open>
  The eight concrete item classes. An item object is its class together with an object
  identity \<open>oid\<close>: the classes define no \<^verbatim>\<open>__eq__\<close>, so \<^verbatim>\<open>==\<close>, \<^verbatim>\<open>in\<close> and
  \<^verbatim>\<open>list.remove\<close> compare identities, and the same object can sit in the inventory
  twice. Every constructor call takes a fresh \<open>oid\<close>.
\<close>

datatype item_class =
  HealthPotion | EnergyCell | EnergyPack | EnergyCrystal
  | LaserPistol | PlasmaRifle | ScrapArmor | ReinforcedVest

record item =
  oid :: nat
  cls :: item_class

fun item_name :: "item_class \<Rightarrow> string" where
  "item_name HealthPotion = ''Health Potion''"
| "item_name EnergyCell = ''Energy Cell''"
| "item_name EnergyPack = ''Energy Pack''"
| "item_name EnergyCrystal = ''Energy Crystal''"
| "item_name LaserPistol = ''Laser Pistol''"
| "item_name PlasmaRifle = ''Plasma Rifle''"
| "item_name ScrapArmor = ''Scrap Armor''"
| "item_name ReinforcedVest = ''Reinforced Vest''"

fun item_type :: "item_class \<Rightarrow> string" where
  "item_type HealthPotion = ''consumable''"
| "item_type EnergyCell = ''consumable''"
| "item_type EnergyPack = ''consumable''"
| "item_type EnergyCrystal = ''collectible''"
| "item_type LaserPistol = ''weapon''"
| "item_type PlasmaRifle = ''weapon''"
| "item_type ScrapArmor = ''armor''"
| "item_type ReinforcedVest = ''armor''"

fun base_value :: "item_class \<Rightarrow> int" where
  "base_value HealthPotion = 20"
| "base_value EnergyCell = 15"
| "base_value EnergyPack = 25"
| "base_value EnergyCrystal = 100"
| "base_value LaserPistol = 30"
| "base_value PlasmaRifle = 60"
| "base_value ScrapArmor = 25"
| "base_value ReinforcedVest = 50"

text \<open>\<^verbatim>\<open>isinstance(item, Weapon)\<close> and the weapon's \<^verbatim>\<open>damage_bonus\<close>.\<close>

fun is_Weapon :: "item_class \<Rightarrow> bool" where
  "is_Weapon LaserPistol = True"
| "is_Weapon PlasmaRifle = True"
| "is_Weapon _ = False"

fun damage_bonus :: "item_class \<Rightarrow> int" where
  "damage_bonus LaserPistol = 5"
| "damage_bonus PlasmaRifle = 10"
| "damage_bonus _ = 0"

fun is_Armor :: "item_class \<Rightarrow> bool" where
  "is_Armor ScrapArmor = True"
| "is_Armor ReinforcedVest = True"
| "is_Armor _ = False"

fun defense_bonus :: "item_class \<Rightarrow> int" where
  "defense_bonus ScrapArmor = 3"
| "defense_bonus ReinforcedVest = 7"
| "defense_bonus _ = 0"

fun is_Consumable :: "item_class \<Rightarrow> bool" where
  "is_Consumable HealthPotion = True"
| "is_Consumable EnergyCell = True"
| "is_Consumable EnergyPack = True"
| "is_Consumable _ = False"

text \<open>\<^verbatim>\<open>ALL_ITEM_CLASSES.get(name)\<close>.\<close>

definition ALL_ITEM_CLASSES :: "(string \<times> item_class) list" where
  "ALL_ITEM_CLASSES =
     [(''Health Potion'', HealthPotion), (''Energy Cell'', EnergyCell),
      (''Energy Pack'', EnergyPack), (''Energy Crystal'', EnergyCrystal),
      (''Laser Pistol'', LaserPistol), (''Plasma Rifle'', PlasmaRifle),
      (''Scrap Armor'', ScrapArmor), (''Reinforced Vest'', ReinforcedVest)]"

subsection \<open>Skills\<close>

text \<open>The six skill effect functions, as values; \<open>effect_func\<close> of a skill is one of them.\<close>

datatype skill_effect =
  engineer_repair_drone_effect | soldier_power_shot_effect | scout_burst_of_speed_effect
  | soldier_grenade_toss_effect | engineer_shield_matrix_effect | scout_stealth_field_effect

record skill =
  skill_name :: string
  energy_cost :: int
  effect_func :: skill_effect

definition Skill :: "string \<Rightarrow> int \<Rightarrow> skill_effect \<Rightarrow> skill" where
  "Skill nm cost eff = \<lparr>skill_name = nm, energy_cost = cost, effect_func = eff\<rparr>"

text \<open>\<^verbatim>\<open>ALL_SKILL_DATA\<close>: name to (cost, effect).\<close>

definition ALL_SKILL_DATA :: "(string \<times> int \<times> skill_effect) list" where
  "ALL_SKILL_DATA =
     [(''Power Shot'', 15, soldier_power_shot_effect),
      (''Repair Drone'', 20, engineer_repair_drone_effect),
      (''Burst of Speed'', 10, scout_burst_of_speed_effect),
      (''Grenade Toss'', 30, soldier_grenade_toss_effect),
      (''Shield Matrix'', 25, engineer_shield_matrix_effect),
      (''Stealth Field'', 35, scout_stealth_field_effect)]"

subsection \<open>Entities\<close>

text \<open>
  \<^verbatim>\<open>GameEntity\<close> with its two subclasses. The map position \<open>pos_x\<close>, \<open>pos_y\<close> (the
  attributes \<^verbatim>\<open>x\<close> and \<^verbatim>\<open>y\<close>) is kept in the base record: \<^verbatim>\<open>Enemy.__init__\<close> sets it to
  \<open>-1\<close>, and the player receives it from \<^verbatim>\<open>generate_level\<close> or \<^verbatim>\<open>load_game\<close>.
\<close>

record game_entity =
  name :: string
  max_hp :: int
  hp :: int
  attack :: int
  defense :: int
  speed :: int
  level :: int
  pos_x :: int
  pos_y :: int

record player = game_entity +
  class_type :: string
  inventory :: "item list"
  equipped_weapon :: "item option"
  equipped_armor :: "item option"
  xp :: int
  xp_to_next_level :: int
  learned_skills :: "skill list"
  max_energy :: int
  energy :: int
  credits :: int
  crystals_collected :: int

record enemy = game_entity +
  xp_value :: int
  credit_value :: int
  item_drop :: "item option"
  symbol :: char

definition take_damage :: "int \<Rightarrow> 'a game_entity_scheme \<Rightarrow> 'a game_entity_scheme" where
  "take_damage damage e =
     (let h = hp e - damage in e\<lparr>hp := (if h < 0 then 0 else h)\<rparr>)"

definition is_alive :: "'a game_entity_scheme \<Rightarrow> bool" where
  "is_alive e \<longleftrightarrow> hp e > 0"

text \<open>
  \<^verbatim>\<open>attack_target\<close> returns the damaged target; the attacker is unchanged.
\<close>

definition attack_target ::
  "'a game_entity_scheme \<Rightarrow> 'b game_entity_scheme \<Rightarrow> 'b game_entity_scheme" where
  "attack_target self target = take_damage (max 0 (attack self - defense target)) target"

text \<open>\<^verbatim>\<open>Player.__init__\<close>; the position is not set by the constructor and is passed in.\<close>

definition Player ::
  "string \<Rightarrow> int \<Rightarrow> int \<Rightarrow> int \<Rightarrow> int \<Rightarrow> string \<Rightarrow> int \<Rightarrow> int \<Rightarrow> player" where
  "Player nm h atk dfn spd ct px py =
     \<lparr>name = nm, max_hp = h, hp = h, attack = atk, defense = dfn, speed = spd, level = 1,
      pos_x = px, pos_y = py,
      class_type = ct, inventory = [], equipped_weapon = None, equipped_armor = None,
      xp = 0, xp_to_next_level = XP_TO_LEVEL_UP_BASE, learned_skills = [],
      max_energy = INITIAL_PLAYER_ENERGY, energy = INITIAL_PLAYER_ENERGY,
      credits = 0, crystals_collected = 0\<rparr>"

subsection \<open>Progression\<close>

text \<open>
  \<^verbatim>\<open>int(XP_TO_LEVEL_UP_BASE * (XP_LEVEL_MULTIPLIER ** (self.level - 1)))\<close>. The source
  computes in double precision; the exact value below agrees with it for every level up
  to 80 (the product stays exactly representable far enough for the truncation).
\<close>

definition xp_threshold :: "int \<Rightarrow> int" where
  "xp_threshold lvl = \<lfloor>of_int XP_TO_LEVEL_UP_BASE * XP_LEVEL_MULTIPLIER powi (lvl - 1)\<rfloor>"

text \<open>One \<^verbatim>\<open>if self.level == n and not any(s.name == nm ...)\<close> block of \<^verbatim>\<open>level_up\<close>.\<close>

definition unlock :: "int \<Rightarrow> skill \<Rightarrow> player \<Rightarrow> player" where
  "unlock n sk p =
     (if level p = n \<and> skill_name sk \<notin> set (map skill_name (learned_skills p))
      then p\<lparr>learned_skills := learned_skills p @ [sk]\<rparr> else p)"

text \<open>The attribute assignments of \<^verbatim>\<open>level_up\<close>, in the order of the source.\<close>

definition raise_stats :: "player \<Rightarrow> player" where
  "raise_stats p0 =
     (let p = p0\<lparr>level := level p0 + 1\<rparr>;
          p = p\<lparr>max_hp := max_hp p + 15\<rparr>;
          p = p\<lparr>hp := max_hp p\<rparr>;
          p = p\<lparr>attack := attack p + 3\<rparr>;
          p = p\<lparr>defense := defense p + 2\<rparr>;
          p = p\<lparr>speed := speed p + 1\<rparr>;
          p = p\<lparr>max_energy := max_energy p + 10\<rparr>;
          p = p\<lparr>energy := max_energy p\<rparr>;
          p = p\<lparr>xp := xp p - xp_to_next_level p\<rparr>
      in p\<lparr>xp_to_next_level := xp_threshold (level p)\<rparr>)"

text \<open>The skill unlocks of \<^verbatim>\<open>level_up\<close>: per class, the level 2 block, then the level 5 block.\<close>

definition unlock_skills :: "player \<Rightarrow> player" where
  "unlock_skills p =
     (if class_type p = ''soldier'' then
        unlock 5 (Skill ''Grenade Toss'' 30 soldier_grenade_toss_effect)
          (unlock 2 (Skill ''Power Shot'' 15 soldier_power_shot_effect) p)
      else if class_type p = ''engineer'' then
        unlock 5 (Skill ''Shield Matrix'' 25 engineer_shield_matrix_effect)
          (unlock 2 (Skill ''Repair Drone'' 20 engineer_repair_drone_effect) p)
      else if class_type p = ''scout'' then
        unlock 5 (Skill ''Stealth Field'' 35 scout_stealth_field_effect)
          (unlock 2 (Skill ''Burst of Speed'' 10 scout_burst_of_speed_effect) p)
      else p)"

definition level_up :: "player \<Rightarrow> player" where
  "level_up p = unlock_skills (raise_stats p)"

definition add_xp :: "int \<Rightarrow> player \<Rightarrow> player" where
  "add_xp amount p0 =
     (let p = p0\<lparr>xp := xp p0 + amount\<rparr>
      in if xp p \<ge> xp_to_next_level p then level_up p else p)"


section \<open>Exceptions, random numbers and keyboard input\<close>

text \<open>
  A computation that can raise returns \<open>error + 'a\<close>. Two of the errors are not Python
  exceptions but ends of the model's input: the random number generator is a tape of
  natural numbers, one per call of the \<^verbatim>\<open>random\<close> module, and the keyboard is a tape of
  strings, one per key press or entered line. A run that needs more than its tapes hold
  stops with \<open>EndOfDraws\<close> or \<open>EndOfInput\<close>.
\<close>

datatype error =
  ValueError | IndexError | ZeroDivisionError | AttributeError | TypeError
  | EndOfDraws | EndOfInput

definition andthen :: "error + 'a \<Rightarrow> ('a \<Rightarrow> error + 'b) \<Rightarrow> error + 'b" where
  "andthen m f = (case m of Inl e \<Rightarrow> Inl e | Inr v \<Rightarrow> f v)"

lemma andthen_simps [simp]:
  "andthen (Inl e) f = Inl e" "andthen (Inr v) f = f v"
  by (simp_all add: andthen_def)

lemma andthen_cong [fundef_cong]:
  "m = m' \<Longrightarrow> (\<And>v. m' = Inr v \<Longrightarrow> f v = f' v) \<Longrightarrow> andthen m f = andthen m' f'"
  by (cases m') (simp_all add: andthen_def)

lemma andthen_InrE:
  assumes "andthen m f = Inr r"
  obtains v where "m = Inr v" "f v = Inr r"
  using assms by (cases m) simp_all

lemma andthen_Inr:
  "andthen m f = Inr r \<longleftrightarrow> (\<exists>v. m = Inr v \<and> f v = Inr r)"
  by (cases m) simp_all

text \<open>\<^verbatim>\<open>random.randint(a, b)\<close>: \<^verbatim>\<open>ValueError\<close> on an empty range, else one draw.\<close>

fun randint :: "int \<Rightarrow> int \<Rightarrow> nat list \<Rightarrow> error + (int \<times> nat list)" where
  "randint a b tape =
     (if b < a then Inl ValueError
      else case tape of [] \<Rightarrow> Inl EndOfDraws
           | d # tape' \<Rightarrow> Inr (a + int (d mod nat (b - a + 1)), tape'))"

text \<open>\<^verbatim>\<open>random.choice(seq)\<close>: \<^verbatim>\<open>IndexError\<close> on an empty sequence, else one draw.\<close>

fun choice :: "'a list \<Rightarrow> nat list \<Rightarrow> error + ('a \<times> nat list)" where
  "choice xs tape =
     (if xs = [] then Inl IndexError
      else case tape of [] \<Rightarrow> Inl EndOfDraws
           | d # tape' \<Rightarrow> Inr (xs ! (d mod length xs), tape'))"

text \<open>
  \<^verbatim>\<open>random.random() < c\<close>. A draw \<open>d\<close> stands for the double \<open>(d mod 2^53) / 2^53\<close>, and
  the threshold is compared as an exact rational; the rounding of the threshold to a
  double is not modelled. No statement below depends on which way a comparison goes.
\<close>

fun random_less :: "rat \<Rightarrow> nat list \<Rightarrow> error + (bool \<times> nat list)" where
  "random_less c [] = Inl EndOfDraws"
| "random_less c (d # tape') = Inr (of_nat (d mod 2 ^ 53) / 2 ^ 53 < c, tape')"

text \<open>
  The keyboard tape holds what \<^verbatim>\<open>_getch().strip().lower()\<close> or
  \<^verbatim>\<open>input(prompt).strip().lower()\<close> returns. \<^verbatim>\<open>get_player_input\<close> with
  \<^verbatim>\<open>valid_options\<close> asks again until the answer is one of the options.
\<close>

fun getch :: "string list \<Rightarrow> error + (string \<times> string list)" where
  "getch [] = Inl EndOfInput"
| "getch (k # ins) = Inr (k, ins)"

fun get_player_input :: "string list \<Rightarrow> string list \<Rightarrow> error + (string \<times> string list)" where
  "get_player_input valid_options [] = Inl EndOfInput"
| "get_player_input valid_options (k # ins) =
     (if k \<in> set valid_options then Inr (k, ins) else get_player_input valid_options ins)"

text \<open>
  \<^verbatim>\<open>int(choice)\<close> on a stripped ASCII string: an optional sign, then decimal digits, with
  single underscores allowed between digits. \<open>None\<close> is \<^verbatim>\<open>ValueError\<close>.
\<close>

definition digit_of :: "char \<Rightarrow> nat option" where
  "digit_of c = (let n = (of_char c :: nat) in if 48 \<le> n \<and> n \<le> 57 then Some (n - 48) else None)"

fun digits_value :: "nat \<Rightarrow> string \<Rightarrow> nat option" where
  "digits_value acc [] = Some acc"
| "digits_value acc [c] = map_option (\<lambda>d. 10 * acc + d) (digit_of c)"
| "digits_value acc (c # c' # cs) =
     (case digit_of c of None \<Rightarrow> None
      | Some d \<Rightarrow>
          if c' = CHR ''_'' then (if cs = [] then None else digits_value (10 * acc + d) cs)
          else digits_value (10 * acc + d) (c' # cs))"

definition py_int :: "string \<Rightarrow> int option" where
  "py_int s =
     (case s of [] \<Rightarrow> None
      | c # cs \<Rightarrow>
          if c = CHR ''-'' then (if cs = [] then None else map_option (\<lambda>n. - int n) (digits_value 0 cs))
          else if c = CHR ''+'' then (if cs = [] then None else map_option int (digits_value 0 cs))
          else map_option int (digits_value 0 s))"

section \<open>Traps, the map and the game\<close>

subsection \<open>Traps\<close>

record trap =
  trap_x :: int
  trap_y :: int
  damage :: int
  triggered :: bool

definition Trap :: "int \<Rightarrow> int \<Rightarrow> int \<Rightarrow> trap" where
  "Trap tx ty dmg = \<lparr>trap_x = tx, trap_y = ty, damage = dmg, triggered = False\<rparr>"

text \<open>\<^verbatim>\<open>Trap.trigger\<close> mutates the trap and the player; both are returned.\<close>

definition trigger :: "trap \<Rightarrow> player \<Rightarrow> trap \<times> player" where
  "trigger self p =
     (if triggered self then (self, p)
      else let self' = self\<lparr>triggered := True\<rparr>
           in if class_type p = ''scout'' then (self', p)
              else (self', take_damage (damage self') p))"

subsection \<open>The tile grid\<close>

text \<open>
  \<^verbatim>\<open>tiles\<close> is a list of rows of characters. Python indexing: a negative index counts
  from the end, and an index out of range raises \<^verbatim>\<open>IndexError\<close>.
\<close>

definition py_index :: "'a list \<Rightarrow> int \<Rightarrow> nat option" where
  "py_index xs i =
     (let n = int (length xs)
      in if 0 \<le> i \<and> i < n then Some (nat i)
         else if - n \<le> i \<and> i < 0 then Some (nat (n + i))
         else None)"

text \<open>\<^verbatim>\<open>tiles[y][x]\<close> and \<^verbatim>\<open>tiles[y][x] = c\<close>.\<close>

definition get_tile :: "char list list \<Rightarrow> int \<Rightarrow> int \<Rightarrow> error + char" where
  "get_tile t x y =
     (case py_index t y of None \<Rightarrow> Inl IndexError
      | Some j \<Rightarrow>
          (case py_index (t ! j) x of None \<Rightarrow> Inl IndexError
           | Some i \<Rightarrow> Inr (t ! j ! i)))"

definition set_tile :: "char list list \<Rightarrow> int \<Rightarrow> int \<Rightarrow> char \<Rightarrow> error + char list list" where
  "set_tile t x y c =
     (case py_index t y of None \<Rightarrow> Inl IndexError
      | Some j \<Rightarrow>
          (case py_index (t ! j) x of None \<Rightarrow> Inl IndexError
           | Some i \<Rightarrow> Inr (t[j := (t ! j)[i := c]])))"

text \<open>\<^verbatim>\<open>range(a, b)\<close> over the integers.\<close>

definition py_range :: "int \<Rightarrow> int \<Rightarrow> int list" where
  "py_range a b = [a..b - 1]"

subsection \<open>The map\<close>

record room =
  x1 :: int
  y1 :: int
  x2 :: int
  y2 :: int

type_synonym pos = "int \<times> int"

text \<open>
  Enemy objects are mutable and shared: the map's entity list and the local variable
  \<^verbatim>\<open>enemy\<close> of a combat refer to the same object, and an ambush enemy may be fought
  without being on the list. The objects therefore live in a store (a list of enemies), a
  reference is an index into it, and \<open>entities\<close> is a list of references. References
  come from allocation at the end of the store only, so they are always in range. The
  two dictionaries keep their insertion order, as Python dictionaries do.
\<close>

record game_map =
  width :: int
  height :: int
  tiles :: "char list list"
  player_start :: pos
  exit_location :: pos
  shop_location :: "pos option"
  entities :: "nat list"
  items_on_map :: "(pos \<times> item) list"
  traps_on_map :: "(pos \<times> trap) list"
  rooms :: "room list"

definition wall_grid :: "int \<Rightarrow> int \<Rightarrow> char list list" where
  "wall_grid w h = replicate (nat h) (replicate (nat w) CHR ''#'')"

definition GameMap :: "int \<Rightarrow> int \<Rightarrow> game_map" where
  "GameMap w h =
     \<lparr>width = w, height = h, tiles = wall_grid w h, player_start = (0, 0),
      exit_location = (0, 0), shop_location = None, entities = [], items_on_map = [],
      traps_on_map = [], rooms = []\<rparr>"

subsection \<open>The game\<close>

text \<open>
  \<open>heap\<close> is the store of enemy objects and \<open>next_oid\<close> the next unused item identity.
  The two tapes are passed beside the game.
\<close>

record game =
  player :: player
  current_map :: game_map
  game_over :: bool
  current_level_num :: int
  original_player_speed :: int
  original_player_defense :: int
  heap :: "enemy list"
  next_oid :: nat

text \<open>A living enemy of the entity list stands on the tile.\<close>

definition enemy_at :: "game \<Rightarrow> int \<Rightarrow> int \<Rightarrow> nat \<Rightarrow> bool" where
  "enemy_at g ex ey r \<longleftrightarrow>
     is_alive (heap g ! r) \<and> pos_x (heap g ! r) = ex \<and> pos_y (heap g ! r) = ey"

definition in_bounds :: "game_map \<Rightarrow> int \<Rightarrow> int \<Rightarrow> bool" where
  "in_bounds m tx ty \<longleftrightarrow> 0 \<le> tx \<and> tx < width m \<and> 0 \<le> ty \<and> ty < height m"

text \<open>
  \<^verbatim>\<open>not (0 <= x < width and 0 <= y < height) or tiles[y][x] == '#'\<close>: the tile is read only
  when the position is in bounds.
\<close>

definition blocked :: "game_map \<Rightarrow> int \<Rightarrow> int \<Rightarrow> error + bool" where
  "blocked m tx ty =
     (if \<not> in_bounds m tx ty then Inr True
      else andthen (get_tile (tiles m) tx ty) (\<lambda>c. Inr (c = CHR ''#'')))"

text \<open>
  The grid has \<open>height\<close> rows of \<open>width\<close> tiles, as \<^verbatim>\<open>GameMap.__init__\<close> and
  \<^verbatim>\<open>generate_map\<close> build it.
\<close>

definition grid_ok :: "game_map \<Rightarrow> bool" where
  "grid_ok m \<longleftrightarrow>
     length (tiles m) = nat (height m) \<and> (\<forall>row \<in> set (tiles m). length row = nat (width m))"

subsection \<open>Enemy turns outside combat\<close>

text \<open>
  The body of the loop \<^verbatim>\<open>for enemy in self.current_map.entities\<close> in
  \<^verbatim>\<open>main_game_loop\<close>, for the enemy with reference \<open>r\<close>.
\<close>

definition step_towards :: "int \<Rightarrow> int \<Rightarrow> int" where
  "step_towards target from =
     (if target > from then from + 1 else if target < from then from - 1 else from)"

definition enemy_turn :: "nat \<Rightarrow> game \<Rightarrow> error + game" where
  "enemy_turn r g =
     (let enemy = heap g ! r; p = player g; m = current_map g
      in if is_alive enemy then
           let dx = \<bar>pos_x enemy - pos_x p\<bar>; dy = \<bar>pos_y enemy - pos_y p\<bar>
           in if (dx = 1 \<and> dy = 0) \<or> (dx = 0 \<and> dy = 1) then
                Inr (g\<lparr>player := attack_target enemy p\<rparr>)
              else
                let new_x = step_towards (pos_x p) (pos_x enemy);
                    new_y = step_towards (pos_y p) (pos_y enemy)
                in andthen (blocked m new_x new_y) (\<lambda>wall.
                     let can_move = \<not> wall;
                         can_move =
                           (if \<exists>other \<in> set (entities m). other \<noteq> r \<and> enemy_at g new_x new_y other
                            then False else can_move);
                         can_move =
                           (if (new_x, new_y) = (pos_x p, pos_y p) then False else can_move)
                     in Inr (if can_move
                             then g\<lparr>heap := (heap g)[r := enemy\<lparr>pos_x := new_x, pos_y := new_y\<rparr>]\<rparr>
                             else g))
         else Inr g)"

text \<open>The whole loop: the enemies act in list order, each on the state the previous left.\<close>

fun enemy_turns :: "nat list \<Rightarrow> game \<Rightarrow> error + game" where
  "enemy_turns [] g = Inr g"
| "enemy_turns (r # rs) g = andthen (enemy_turn r g) (enemy_turns rs)"

subsection \<open>Stepping onto a tile\<close>

text \<open>
  \<^verbatim>\<open>move_player\<close> up to and including the trap check. \<open>Stopped\<close> is an early
  \<^verbatim>\<open>return\<close> (an invalid direction, a wall, or death by the trap); \<open>Entering\<close> carries
  the tile the function goes on with (enemy, item, shop and exit checks).
\<close>

datatype move_result = Stopped game | Entering game int int

text \<open>The tile chosen by the direction key; \<open>None\<close> is the final \<^verbatim>\<open>else: return\<close>.\<close>

definition target_tile :: "string \<Rightarrow> player \<Rightarrow> pos option" where
  "target_tile direction p =
     (if direction = ''w'' then Some (pos_x p, pos_y p - 1)
      else if direction = ''s'' then Some (pos_x p, pos_y p + 1)
      else if direction = ''a'' then Some (pos_x p - 1, pos_y p)
      else if direction = ''d'' then Some (pos_x p + 1, pos_y p)
      else None)"

definition dict_get :: "('k \<times> 'v) list \<Rightarrow> 'k \<Rightarrow> 'v option" where
  "dict_get d k = map_of d k"

definition dict_del :: "'k \<Rightarrow> ('k \<times> 'v) list \<Rightarrow> ('k \<times> 'v) list" where
  "dict_del k d = AList.delete k d"

definition dict_set :: "'k \<Rightarrow> 'v \<Rightarrow> ('k \<times> 'v) list \<Rightarrow> ('k \<times> 'v) list" where
  "dict_set k v d = AList.update k v d"

definition move_player_enter :: "string \<Rightarrow> game \<Rightarrow> error + move_result" where
  "move_player_enter direction g =
     (let p = player g; m = current_map g
      in case target_tile direction p of
           None \<Rightarrow> Inr (Stopped g)
         | Some (new_x, new_y) \<Rightarrow>
             andthen (blocked m new_x new_y) (\<lambda>wall.
               if wall then Inr (Stopped g)
               else case dict_get (traps_on_map m) (new_x, new_y) of
                      None \<Rightarrow> Inr (Entering g new_x new_y)
                    | Some tr \<Rightarrow>
                        if \<not> triggered tr then
                          let (tr', p') = trigger tr p;
                              g' = g\<lparr>player := p',
                                     current_map := m\<lparr>traps_on_map :=
                                       dict_del (new_x, new_y) (traps_on_map m)\<rparr>\<rparr>
                          in if \<not> is_alive p' then Inr (Stopped g')
                             else Inr (Entering g' new_x new_y)
                        else Inr (Entering g new_x new_y)))"

section \<open>Combat\<close>

subsection \<open>Using and equipping items\<close>

text \<open>The \<^verbatim>\<open>effect_func\<close> of the three consumables.\<close>

fun consumable_effect :: "item_class \<Rightarrow> player \<Rightarrow> player" where
  "consumable_effect HealthPotion p = p\<lparr>hp := min (max_hp p) (hp p + 50)\<rparr>"
| "consumable_effect EnergyCell p = p\<lparr>hp := min (max_hp p) (hp p + 25)\<rparr>"
| "consumable_effect EnergyPack p = p\<lparr>energy := min (max_energy p) (energy p + 40)\<rparr>"
| "consumable_effect _ p = p"

definition use_item :: "item \<Rightarrow> player \<Rightarrow> player" where
  "use_item it p0 =
     (if is_Consumable (cls it) then
        let p = consumable_effect (cls it) p0
        in if it \<in> set (inventory p) then p\<lparr>inventory := remove1 it (inventory p)\<rparr> else p
      else p0)"

text \<open>
  \<^verbatim>\<open>equip_item\<close>. Reading \<^verbatim>\<open>damage_bonus\<close> of an equipped object that is no weapon (a
  save file can name any catalog item as the equipped weapon) is an \<^verbatim>\<open>AttributeError\<close>;
  likewise for the armor.
\<close>

definition equip_item :: "item \<Rightarrow> player \<Rightarrow> error + player" where
  "equip_item it p0 =
     (if is_Weapon (cls it) then
        andthen
          (case equipped_weapon p0 of
             Some old \<Rightarrow>
               if is_Weapon (cls old) then
                 Inr (p0\<lparr>inventory := inventory p0 @ [old],
                         attack := attack p0 - damage_bonus (cls old)\<rparr>)
               else Inl AttributeError
           | None \<Rightarrow> Inr p0)
          (\<lambda>p. Inr (p\<lparr>equipped_weapon := Some it, attack := attack p + damage_bonus (cls it)\<rparr>))
      else if is_Armor (cls it) then
        andthen
          (case equipped_armor p0 of
             Some old \<Rightarrow>
               if is_Armor (cls old) then
                 Inr (p0\<lparr>inventory := inventory p0 @ [old],
                         defense := defense p0 - defense_bonus (cls old)\<rparr>)
               else Inl AttributeError
           | None \<Rightarrow> Inr p0)
          (\<lambda>p. Inr (p\<lparr>equipped_armor := Some it, defense := defense p + defense_bonus (cls it)\<rparr>))
      else Inr p0)"

text \<open>\<^verbatim>\<open>list.pop(i)\<close> for an index known to be in range.\<close>

definition pop_at :: "nat \<Rightarrow> 'a list \<Rightarrow> 'a list" where
  "pop_at i xs = take i xs @ drop (Suc i) xs"

text \<open>
  The body of the \<^verbatim>\<open>try\<close> block of \<^verbatim>\<open>handle_inventory\<close> for the number entered.
  \<open>None\<close>: the menu stays open with the game unchanged (an invalid number, a
  collectible, an item that is already equipped). Otherwise the item was used or
  equipped, or the attempt raised.
\<close>

definition inventory_select :: "int \<Rightarrow> game \<Rightarrow> (error + game) option" where
  "inventory_select n g =
     (let item_index = n - 1; p = player g
      in if 0 \<le> item_index \<and> item_index < int (length (inventory p)) then
           let it = inventory p ! nat item_index
           in if item_type (cls it) = ''consumable'' then
                Some (Inr (g\<lparr>player := use_item it p\<rparr>))
              else if item_type (cls it) = ''collectible'' then None
              else if item_type (cls it) \<in> {''weapon'', ''armor''} then
                if (is_Weapon (cls it) \<and> Some it = equipped_weapon p) \<or>
                   (is_Armor (cls it) \<and> Some it = equipped_armor p)
                then None
                else
                  Some (andthen (equip_item it p) (\<lambda>p'.
                    let p' = (if it \<in> set (inventory p')
                              then p'\<lparr>inventory := pop_at (nat item_index) (inventory p')\<rparr>
                              else p')
                    in Inr (g\<lparr>player := p'\<rparr>)))
              else None
         else None)"

text \<open>
  \<^verbatim>\<open>handle_inventory\<close>: the result is whether an item was used or equipped. With an
  empty inventory outside combat the function waits for a key.
\<close>

fun handle_inventory_loop :: "game \<Rightarrow> string list \<Rightarrow> error + (bool \<times> game \<times> string list)" where
  "handle_inventory_loop g [] = Inl EndOfInput"
| "handle_inventory_loop g (c # ins) =
     (if c = ''b'' then Inr (False, g, ins)
      else case py_int c of
        None \<Rightarrow> handle_inventory_loop g ins
      | Some n \<Rightarrow>
          (case inventory_select n g of
             None \<Rightarrow> handle_inventory_loop g ins
           | Some r \<Rightarrow> andthen r (\<lambda>g'. Inr (True, g', ins))))"

definition handle_inventory ::
  "bool \<Rightarrow> game \<Rightarrow> string list \<Rightarrow> error + (bool \<times> game \<times> string list)" where
  "handle_inventory in_combat g ins =
     (if inventory (player g) = [] then
        if \<not> in_combat then andthen (getch ins) (\<lambda>(k, ins'). Inr (False, g, ins'))
        else Inr (False, g, ins)
      else handle_inventory_loop g ins)"

subsection \<open>Skills\<close>

text \<open>
  The second argument a skill effect receives: \<^verbatim>\<open>None\<close>, an enemy object, or a list of
  enemy objects.
\<close>

datatype effect_arg = ArgNone | ArgEnemy nat | ArgList "nat list"

text \<open>\<^verbatim>\<open>aoe_damage = player.attack // 3 + 10\<close>\<close>

definition aoe_damage :: "player \<Rightarrow> int" where
  "aoe_damage p = attack p div 3 + 10"

text \<open>The loop of \<^verbatim>\<open>_soldier_grenade_toss_effect\<close> over a copy of the list.\<close>

fun grenade_loop :: "int \<Rightarrow> nat list \<Rightarrow> enemy list \<Rightarrow> enemy list" where
  "grenade_loop aoe [] h = h"
| "grenade_loop aoe (r # rs) h =
     grenade_loop aoe rs
       (if is_alive (h ! r)
        then h[r := take_damage (max 0 (aoe - defense (h ! r))) (h ! r)]
        else h)"

text \<open>
  The six effect functions on the player and the enemy store. An effect called with an
  argument of the wrong kind raises as the source would: \<^verbatim>\<open>list(enemy)\<close> is a
  \<^verbatim>\<open>TypeError\<close>, \<^verbatim>\<open>[...].is_alive\<close> an \<^verbatim>\<open>AttributeError\<close>.
\<close>

fun apply_effect ::
  "skill_effect \<Rightarrow> effect_arg \<Rightarrow> player \<Rightarrow> enemy list \<Rightarrow> error + (player \<times> enemy list)" where
  "apply_effect engineer_repair_drone_effect a p h =
     (let heal_amount = 30 + level p * 2
      in Inr (p\<lparr>hp := min (max_hp p) (hp p + heal_amount)\<rparr>, h))"
| "apply_effect soldier_power_shot_effect ArgNone p h = Inr (p, h)"
| "apply_effect soldier_power_shot_effect (ArgList rs) p h =
     (if rs = [] then Inr (p, h) else Inl AttributeError)"
| "apply_effect soldier_power_shot_effect (ArgEnemy r) p h =
     (if is_alive (h ! r) then
        let damage_bonus = attack p div 2;
            total_damage = max 0 (attack p + damage_bonus - defense (h ! r))
        in Inr (p, h[r := take_damage total_damage (h ! r)])
      else Inr (p, h))"
| "apply_effect scout_burst_of_speed_effect a p h = Inr (p\<lparr>speed := speed p + 5\<rparr>, h)"
| "apply_effect soldier_grenade_toss_effect (ArgList rs) p h =
     Inr (p, grenade_loop (aoe_damage p) rs h)"
| "apply_effect soldier_grenade_toss_effect _ p h = Inl TypeError"
| "apply_effect engineer_shield_matrix_effect a p h = Inr (p\<lparr>defense := defense p + 10\<rparr>, h)"
| "apply_effect scout_stealth_field_effect a p h =
     Inr (p\<lparr>defense := defense p + 5, speed := speed p + 3\<rparr>, h)"

text \<open>\<^verbatim>\<open>Skill.use(player, target, enemies_on_map)\<close>.\<close>

definition skill_use ::
  "skill \<Rightarrow> effect_arg \<Rightarrow> effect_arg \<Rightarrow> player \<Rightarrow> enemy list \<Rightarrow> error + (player \<times> enemy list)" where
  "skill_use self target enemies_on_map p h =
     (if skill_name self = ''Grenade Toss'' then apply_effect (effect_func self) enemies_on_map p h
      else apply_effect (effect_func self) target p h)"

text \<open>
  \<^verbatim>\<open>self.current_map.entities = [e for e in self.current_map.entities if e.is_alive()]\<close>
\<close>

definition prune_dead :: "game \<Rightarrow> game" where
  "prune_dead g =
     g\<lparr>current_map := (current_map g)
         \<lparr>entities := filter (\<lambda>r. is_alive (heap g ! r)) (entities (current_map g))\<rparr>\<rparr>"

text \<open>
  \<^verbatim>\<open>handle_skills\<close>. Besides its result (whether a skill was used) the function returns
  the notices the menu displayed, in order; they are the only console output kept.
\<close>

datatype notice =
  NoSkills | NotEnoughEnergy string int | InvalidSkillNumber | InvalidInput

text \<open>
  The body of the \<^verbatim>\<open>try\<close> block of \<^verbatim>\<open>handle_skills\<close> for the number entered. \<open>Inl\<close>:
  the menu displays the notice and stays open, the game unchanged. \<open>Inr\<close>: the energy
  was deducted and the skill used (or its effect raised).
\<close>

definition skill_select :: "nat \<Rightarrow> int \<Rightarrow> game \<Rightarrow> notice + (error + game)" where
  "skill_select enemy n g =
     (let skill_index = n - 1; p = player g
      in if 0 \<le> skill_index \<and> skill_index < int (length (learned_skills p)) then
           let sk = learned_skills p ! nat skill_index
           in if energy p \<ge> energy_cost sk then
                let p' = p\<lparr>energy := energy p - energy_cost sk\<rparr>
                in if skill_name sk = ''Grenade Toss'' then
                     Inr (andthen
                       (skill_use sk ArgNone (ArgList (entities (current_map g))) p' (heap g))
                       (\<lambda>(p'', h'). Inr (prune_dead (g\<lparr>player := p'', heap := h'\<rparr>))))
                   else
                     Inr (andthen (skill_use sk (ArgEnemy enemy) ArgNone p' (heap g))
                       (\<lambda>(p'', h'). Inr (g\<lparr>player := p'', heap := h'\<rparr>)))
              else Inl (NotEnoughEnergy (skill_name sk) (energy_cost sk))
         else Inl InvalidSkillNumber)"

fun handle_skills_loop ::
  "nat \<Rightarrow> game \<Rightarrow> notice list \<Rightarrow> string list \<Rightarrow>
   error + (bool \<times> game \<times> notice list \<times> string list)" where
  "handle_skills_loop enemy g ns [] = Inl EndOfInput"
| "handle_skills_loop enemy g ns (c # ins) =
     (if c = ''b'' then Inr (False, g, ns, ins)
      else case py_int c of
        None \<Rightarrow> handle_skills_loop enemy g (ns @ [InvalidInput]) ins
      | Some n \<Rightarrow>
          (case skill_select enemy n g of
             Inl notice \<Rightarrow> handle_skills_loop enemy g (ns @ [notice]) ins
           | Inr r \<Rightarrow> andthen r (\<lambda>g'. Inr (True, g', ns, ins))))"

definition handle_skills ::
  "nat \<Rightarrow> game \<Rightarrow> string list \<Rightarrow> error + (bool \<times> game \<times> notice list \<times> string list)" where
  "handle_skills enemy g ins =
     (if learned_skills (player g) = [] then Inr (False, g, [NoSkills], ins)
      else handle_skills_loop enemy g [] ins)"

subsection \<open>Fleeing\<close>

fun filter_res :: "('a \<Rightarrow> error + bool) \<Rightarrow> 'a list \<Rightarrow> error + 'a list" where
  "filter_res P [] = Inr []"
| "filter_res P (a # as) =
     andthen (P a) (\<lambda>b. andthen (filter_res P as) (\<lambda>rest. Inr (if b then a # rest else rest)))"

text \<open>
  The test of \<^verbatim>\<open>attempt_flee\<close> on a neighbouring position: in bounds, an empty floor
  tile, and no living enemy of the entity list on it.
\<close>

definition open_tile :: "game \<Rightarrow> pos \<Rightarrow> error + bool" where
  "open_tile g = (\<lambda>(tx, ty).
     if in_bounds (current_map g) tx ty then
       andthen (get_tile (tiles (current_map g)) tx ty) (\<lambda>c.
         Inr (c = CHR ''.'' \<and> \<not> (\<exists>r \<in> set (entities (current_map g)). enemy_at g tx ty r)))
     else Inr False)"

text \<open>
  \<^verbatim>\<open>attempt_flee\<close>. The chance \<^verbatim>\<open>speed / (speed + enemy.speed)\<close> divides by zero when the
  two speeds cancel.
\<close>

definition attempt_flee ::
  "nat \<Rightarrow> game \<Rightarrow> nat list \<Rightarrow> error + (bool \<times> game \<times> nat list)" where
  "attempt_flee enemy g tape =
     (let p = player g; e = heap g ! enemy
      in if speed p + speed e = 0 then Inl ZeroDivisionError
         else
           andthen (random_less (of_int (speed p) / of_int (speed p + speed e)) tape)
             (\<lambda>(escaped, tape).
                if escaped then
                  andthen
                    (filter_res (open_tile g)
                       [(pos_x p, pos_y p + 1), (pos_x p, pos_y p - 1),
                        (pos_x p + 1, pos_y p), (pos_x p - 1, pos_y p)])
                    (\<lambda>possible_moves.
                       if possible_moves \<noteq> [] then
                         andthen (choice possible_moves tape) (\<lambda>((nx, ny), tape).
                           Inr (True, g\<lparr>player := p\<lparr>pos_x := nx, pos_y := ny\<rparr>\<rparr>, tape))
                       else Inr (True, g, tape))
                else Inr (False, g, tape)))"

subsection \<open>The combat loop\<close>

text \<open>
  The player's branch of the loop body of \<^verbatim>\<open>combat_round\<close>. The result says whether
  the player fled (\<^verbatim>\<open>combat_active = False\<close> and \<^verbatim>\<open>break\<close>). After a menu that was left
  without using anything the source executes \<^verbatim>\<open>continue\<close>, which goes on with the next
  combatant exactly as a used turn does (it only skips \<^verbatim>\<open>time.sleep\<close>).
\<close>

definition player_turn ::
  "nat \<Rightarrow> game \<Rightarrow> nat list \<Rightarrow> string list \<Rightarrow>
   error + (bool \<times> game \<times> nat list \<times> string list)" where
  "player_turn enemy g tape ins =
     (let action_options =
            [''a'', ''i'', ''f''] @ (if learned_skills (player g) \<noteq> [] then [''k''] else [])
      in andthen (get_player_input action_options ins) (\<lambda>(action, ins).
           if action = ''a'' then
             Inr (False, g\<lparr>heap := (heap g)[enemy := attack_target (player g) (heap g ! enemy)]\<rparr>,
                  tape, ins)
           else if action = ''i'' then
             andthen (handle_inventory True g ins) (\<lambda>(used, g, ins). Inr (False, g, tape, ins))
           else if action = ''f'' then
             andthen (attempt_flee enemy g tape) (\<lambda>(escaped, g, tape). Inr (escaped, g, tape, ins))
           else if action = ''k'' then
             andthen (handle_skills enemy g ins) (\<lambda>(used, g, ns, ins). Inr (False, g, tape, ins))
           else Inr (False, g, tape, ins)))"

datatype combatant = ThePlayer | TheEnemy

text \<open>
  \<^verbatim>\<open>sorted([self.player, enemy], key=lambda c: c.speed, reverse=True)\<close>: the sort is
  stable, so the player stays first on a tie.
\<close>

definition combatants :: "nat \<Rightarrow> game \<Rightarrow> combatant list" where
  "combatants enemy g =
     (if speed (heap g ! enemy) > speed (player g) then [TheEnemy, ThePlayer]
      else [ThePlayer, TheEnemy])"

text \<open>
  \<^verbatim>\<open>for combatant in combatants\<close>. The state is \<^verbatim>\<open>combat_active\<close>, the game and the two
  tapes.
\<close>

type_synonym combat_state = "bool \<times> game \<times> nat list \<times> string list"

fun combat_for :: "combatant list \<Rightarrow> nat \<Rightarrow> combat_state \<Rightarrow> error + combat_state" where
  "combat_for [] enemy st = Inr st"
| "combat_for (c # cs) enemy (active, g, tape, ins) =
     (if \<not> is_alive (player g) \<or> \<not> is_alive (heap g ! enemy) then Inr (active, g, tape, ins)
      else case c of
        ThePlayer \<Rightarrow>
          andthen (player_turn enemy g tape ins) (\<lambda>(escaped, g, tape, ins).
            if escaped then Inr (False, g, tape, ins)
            else combat_for cs enemy (active, g, tape, ins))
      | TheEnemy \<Rightarrow>
          combat_for cs enemy
            (active, g\<lparr>player := attack_target (heap g ! enemy) (player g)\<rparr>, tape, ins))"

definition fighting :: "nat \<Rightarrow> combat_state \<Rightarrow> bool" where
  "fighting enemy = (\<lambda>(active, g, tape, ins).
     is_alive (player g) \<and> is_alive (heap g ! enemy) \<and> active)"

text \<open>
  Termination of the \<^verbatim>\<open>while\<close> loop of \<^verbatim>\<open>combat_round\<close>: every menu only consumes
  keyboard input, the player's turn reads at least one key, and a round in which the
  player does not come to act ends the fight.
\<close>

lemma get_player_input_shrinks:
  "get_player_input opts ins = Inr (k, ins') \<Longrightarrow> length ins' < length ins"
  by (induction ins) (auto split: if_splits)

lemma getch_shrinks: "getch ins = Inr (k, ins') \<Longrightarrow> length ins' < length ins"
  by (cases ins) auto

lemma handle_inventory_loop_length:
  "handle_inventory_loop g ins = Inr (used, g', ins') \<Longrightarrow> length ins' \<le> length ins"
  by (induction ins) (auto simp: andthen_Inr split: if_splits option.splits)

lemma handle_inventory_length:
  "handle_inventory in_combat g ins = Inr (used, g', ins') \<Longrightarrow> length ins' \<le> length ins"
  by (auto simp: handle_inventory_def andthen_Inr split: if_splits
      dest: handle_inventory_loop_length getch_shrinks)

lemma handle_skills_loop_length:
  "handle_skills_loop e g ns ins = Inr (used, g', ns', ins') \<Longrightarrow> length ins' \<le> length ins"
  by (induction ins arbitrary: ns)
     (auto simp: andthen_Inr split: if_splits option.splits sum.splits intro: le_SucI)

lemma handle_skills_length:
  "handle_skills e g ins = Inr (used, g', ns', ins') \<Longrightarrow> length ins' \<le> length ins"
  by (auto simp: handle_skills_def split: if_splits dest: handle_skills_loop_length)

lemma player_turn_shrinks:
  assumes "player_turn e g tape ins = Inr (esc, g', tape', ins')"
  shows "length ins' < length ins"
proof -
  from assms obtain action ins1 where
    inp: "get_player_input ([''a'', ''i'', ''f''] @ (if learned_skills (player g) \<noteq> [] then [''k''] else [])) ins
          = Inr (action, ins1)"
    and rest: "length ins' \<le> length ins1"
    by (auto simp: player_turn_def Let_def andthen_Inr split: if_splits
        dest: handle_inventory_length handle_skills_length)
  from get_player_input_shrinks[OF inp] rest show ?thesis by simp
qed

lemma combat_for_length:
  "combat_for cs e st = Inr st' \<Longrightarrow> length (snd (snd (snd st'))) \<le> length (snd (snd (snd st)))"
proof (induction cs e st rule: combat_for.induct)
  case (1 enemy st)
  then show ?case by simp
next
  case (2 c cs enemy active g tape ins)
  show ?case
  proof (cases "\<not> is_alive (player g) \<or> \<not> is_alive (heap g ! enemy)")
    case True
    with "2.prems" show ?thesis by simp
  next
    case False
    show ?thesis
    proof (cases c)
      case ThePlayer
      with False "2.prems" obtain esc g1 tape1 ins1 where
        pt: "player_turn enemy g tape ins = Inr (esc, g1, tape1, ins1)"
        and k: "(if esc then Inr (False, g1, tape1, ins1)
                 else combat_for cs enemy (active, g1, tape1, ins1)) = Inr st'"
        by (auto simp: andthen_Inr)
      have l1: "length ins1 < length ins" using player_turn_shrinks[OF pt] .
      show ?thesis
      proof (cases esc)
        case True
        with k l1 show ?thesis by auto
      next
        case esc: False
        with k have "combat_for cs enemy (active, g1, tape1, ins1) = Inr st'" by simp
        from "2.IH"(1)[OF False ThePlayer pt refl refl refl esc this] l1
        show ?thesis by simp
      qed
    next
      case TheEnemy
      with False "2.prems" "2.IH"(2) show ?thesis by auto
    qed
  qed
qed

text \<open>One round either reads the keyboard or ends the fight.\<close>

lemma combat_round_progress:
  assumes "fighting e (active, g, tape, ins)"
    and "combat_for (combatants e g) e (active, g, tape, ins) = Inr (active', g', tape', ins')"
  shows "length ins' < length ins \<or> (length ins' = length ins \<and> \<not> fighting e (active', g', tape', ins'))"
proof -
  from assms(1) have al: "is_alive (player g)" "is_alive (heap g ! e)"
    by (simp_all add: fighting_def)
  show ?thesis
  proof (cases "speed (heap g ! e) > speed (player g)")
    case False
    then have cs: "combatants e g = [ThePlayer, TheEnemy]" by (simp add: combatants_def)
    from assms(2) al obtain esc g1 tape1 ins1 where
      pt: "player_turn e g tape ins = Inr (esc, g1, tape1, ins1)"
      and k: "(if esc then Inr (False, g1, tape1, ins1)
               else combat_for [TheEnemy] e (active, g1, tape1, ins1)) = Inr (active', g', tape', ins')"
      unfolding cs by (auto simp: andthen_Inr)
    have l1: "length ins1 < length ins" using player_turn_shrinks[OF pt] .
    from k have "length ins' \<le> length ins1"
      using combat_for_length[of "[TheEnemy]" e "(active, g1, tape1, ins1)" "(active', g', tape', ins')"]
      by (cases esc) auto
    with l1 show ?thesis by simp
  next
    case True
    then have cs: "combatants e g = [TheEnemy, ThePlayer]" by (simp add: combatants_def)
    define g1 where "g1 = g\<lparr>player := attack_target (heap g ! e) (player g)\<rparr>"
    from assms(2) al have k: "combat_for [ThePlayer] e (active, g1, tape, ins) = Inr (active', g', tape', ins')"
      unfolding cs g1_def by simp
    show ?thesis
    proof (cases "\<not> is_alive (player g1) \<or> \<not> is_alive (heap g1 ! e)")
      case True
      with k have "ins' = ins" "g' = g1" by auto
      with True show ?thesis by (auto simp: fighting_def)
    next
      case False
      with k obtain esc g2 tape2 ins2 where
        pt: "player_turn e g1 tape ins = Inr (esc, g2, tape2, ins2)"
        and k2: "(if esc then Inr (False, g2, tape2, ins2)
                  else combat_for [] e (active, g2, tape2, ins2))
                 = Inr (active', g', tape', ins')"
        by (auto simp: andthen_Inr)
      from k2 have "ins' = ins2" by (cases esc) auto
      with player_turn_shrinks[OF pt] show ?thesis by simp
    qed
  qed
qed

text \<open>\<^verbatim>\<open>while self.player.is_alive() and enemy.is_alive() and combat_active\<close>\<close>

function combat_loop :: "nat \<Rightarrow> combat_state \<Rightarrow> error + combat_state" where
  "combat_loop enemy (active, g, tape, ins) =
     (if fighting enemy (active, g, tape, ins) then
        andthen (combat_for (combatants enemy g) enemy (active, g, tape, ins)) (combat_loop enemy)
      else Inr (active, g, tape, ins))"
  by pat_completeness auto
termination
proof (relation "measure (\<lambda>(enemy, st). 2 * length (snd (snd (snd st))) + (if fighting enemy st then 1 else 0))")
  show "wf (measure (\<lambda>(enemy, st). 2 * length (snd (snd (snd st))) + (if fighting enemy st then 1 else 0)))"
    by simp
next
  fix enemy active g tape ins v
  assume f: "fighting enemy (active, g, tape, ins)"
    and r: "combat_for (combatants enemy g) enemy (active, g, tape, ins) = Inr v"
  obtain active' g' tape' ins' where v: "v = (active', g', tape', ins')" by (cases v) auto
  from combat_round_progress[OF f r[unfolded v]] f
  show "((enemy, v), enemy, active, g, tape, ins)
        \<in> measure (\<lambda>(enemy, st). 2 * length (snd (snd (snd st))) + (if fighting enemy st then 1 else 0))"
    unfolding v by auto
qed

text \<open>
  What the victory branch of \<^verbatim>\<open>combat_round\<close> gives the player for the enemy it was
  called with: XP, credits and the drop, if any.
\<close>

definition defeat_rewards :: "enemy \<Rightarrow> player \<Rightarrow> player" where
  "defeat_rewards e p0 =
     (let p = add_xp (xp_value e) p0;
          p = p\<lparr>credits := credits p + credit_value e\<rparr>
      in case item_drop e of
           Some d \<Rightarrow> p\<lparr>inventory := inventory p @ [d]\<rparr>
         | None \<Rightarrow> p)"

text \<open>
  The end of \<^verbatim>\<open>combat_round\<close>, after the loop: the two stats are reset to their values
  at entry, then defeat or victory is handled. Victory waits for a key.
\<close>

definition combat_finish ::
  "nat \<Rightarrow> int \<Rightarrow> int \<Rightarrow> game \<Rightarrow> string list \<Rightarrow> error + (game \<times> string list)" where
  "combat_finish enemy initial_player_speed_in_combat initial_player_defense_in_combat g0 ins =
     (let g = g0\<lparr>player := (player g0)\<lparr>speed := initial_player_speed_in_combat,
                                          defense := initial_player_defense_in_combat\<rparr>\<rparr>;
          e = heap g ! enemy
      in if \<not> is_alive (player g) then Inr (g\<lparr>game_over := True\<rparr>, ins)
         else if \<not> is_alive e then
           andthen (getch ins) (\<lambda>(k, ins).
             Inr (prune_dead (g\<lparr>player := defeat_rewards e (player g)\<rparr>), ins))
         else Inr (g, ins))"

definition combat_round ::
  "nat \<Rightarrow> game \<Rightarrow> nat list \<Rightarrow> string list \<Rightarrow> error + (game \<times> nat list \<times> string list)" where
  "combat_round enemy g tape ins =
     andthen (combat_loop enemy (True, g, tape, ins)) (\<lambda>(active, g', tape', ins').
       andthen (combat_finish enemy (speed (player g)) (defense (player g)) g' ins')
         (\<lambda>(g'', ins''). Inr (g'', tape', ins'')))"

section \<open>The level generator\<close>

subsection \<open>Carving\<close>

text \<open>A run of assignments \<^verbatim>\<open>self.tiles[y][x] = c\<close> over a list of positions \<open>(x, y)\<close>.\<close>

fun set_tiles :: "char \<Rightarrow> pos list \<Rightarrow> char list list \<Rightarrow> error + char list list" where
  "set_tiles c [] t = Inr t"
| "set_tiles c ((tx, ty) # ps) t = andthen (set_tile t tx ty c) (set_tiles c ps)"

text \<open>
  \<^verbatim>\<open>for ry in range(y1, y2): for rx in range(x1, x2): self.tiles[ry][rx] = '.'\<close>
\<close>

definition room_tiles :: "room \<Rightarrow> pos list" where
  "room_tiles r = concat (map (\<lambda>ry. map (\<lambda>rx. (rx, ry)) (py_range (x1 r) (x2 r)))
                           (py_range (y1 r) (y2 r)))"

definition carve_room :: "room \<Rightarrow> char list list \<Rightarrow> error + char list list" where
  "carve_room r t = set_tiles CHR ''.'' (room_tiles r) t"

text \<open>The overlap test against one existing room, with its margin of one tile.\<close>

definition overlaps :: "room \<Rightarrow> room \<Rightarrow> bool" where
  "overlaps new_room existing_room \<longleftrightarrow>
     x1 new_room \<le> x2 existing_room + 1 \<and> x2 new_room \<ge> x1 existing_room - 1 \<and>
     y1 new_room \<le> y2 existing_room + 1 \<and> y2 new_room \<ge> y1 existing_room - 1"

text \<open>
  Step 1, one round of \<^verbatim>\<open>for _ in range(MAX_ROOMS)\<close>: four draws give the candidate
  room; it is dropped when it overlaps an accepted room, else appended and carved.
\<close>

definition draw_room :: "game_map \<Rightarrow> nat list \<Rightarrow> error + (room \<times> nat list)" where
  "draw_room m tape =
     andthen (randint ROOM_MIN_SIZE ROOM_MAX_SIZE tape) (\<lambda>(w, tape).
     andthen (randint ROOM_MIN_SIZE ROOM_MAX_SIZE tape) (\<lambda>(h, tape).
     andthen (randint 1 (width m - w - 1) tape) (\<lambda>(rx, tape).
     andthen (randint 1 (height m - h - 1) tape) (\<lambda>(ry, tape).
       Inr (\<lparr>x1 = rx, y1 = ry, x2 = rx + w, y2 = ry + h\<rparr>, tape)))))"

definition try_room :: "room \<Rightarrow> game_map \<Rightarrow> error + game_map" where
  "try_room new_room m =
     (if \<exists>existing_room \<in> set (rooms m). overlaps new_room existing_room then Inr m
      else andthen (carve_room new_room (tiles m)) (\<lambda>t.
             Inr (m\<lparr>rooms := rooms m @ [new_room], tiles := t\<rparr>)))"

fun place_rooms :: "nat \<Rightarrow> game_map \<Rightarrow> nat list \<Rightarrow> error + (game_map \<times> nat list)" where
  "place_rooms 0 m tape = Inr (m, tape)"
| "place_rooms (Suc k) m tape =
     andthen (draw_room m tape) (\<lambda>(new_room, tape).
       andthen (try_room new_room m) (\<lambda>m. place_rooms k m tape))"

text \<open>The centre of a room, and the L-shaped corridor between two centres.\<close>

definition center :: "room \<Rightarrow> pos" where
  "center r = ((x1 r + x2 r) div 2, (y1 r + y2 r) div 2)"

definition corridor_tiles :: "room \<Rightarrow> room \<Rightarrow> pos list" where
  "corridor_tiles room1 room2 =
     (let (center1_x, center1_y) = center room1; (center2_x, center2_y) = center room2
      in map (\<lambda>cx. (cx, center1_y)) (py_range (min center1_x center2_x) (max center1_x center2_x + 1))
         @ map (\<lambda>cy. (center2_x, cy)) (py_range (min center1_y center2_y) (max center1_y center2_y + 1)))"

text \<open>Step 2, \<^verbatim>\<open>for i in range(len(self.rooms) - 1)\<close> over consecutive rooms.\<close>

fun connect_rooms :: "room list \<Rightarrow> char list list \<Rightarrow> error + char list list" where
  "connect_rooms (room1 # room2 # rs) t =
     andthen (set_tiles CHR ''.'' (corridor_tiles room1 room2) t) (connect_rooms (room2 # rs))"
| "connect_rooms rs t = Inr t"

text \<open>
  Steps 1 and 2 together, from the reset at the top of \<^verbatim>\<open>generate_map\<close>. The sort by
  \<^verbatim>\<open>x1\<close> is stable, as Python's is.
\<close>

definition carve_map :: "game_map \<Rightarrow> nat list \<Rightarrow> error + (game_map \<times> nat list)" where
  "carve_map self tape =
     (let m = self\<lparr>tiles := wall_grid (width self) (height self), entities := [],
                   items_on_map := [], traps_on_map := [], rooms := [], shop_location := None\<rparr>
      in andthen (place_rooms MAX_ROOMS m tape) (\<lambda>(m, tape).
           if length (rooms m) > 1 then
             let m = m\<lparr>rooms := sort_key x1 (rooms m)\<rparr>
             in andthen (connect_rooms (rooms m) (tiles m)) (\<lambda>t. Inr (m\<lparr>tiles := t\<rparr>, tape))
           else Inr (m, tape)))"

subsection \<open>Placing features\<close>

text \<open>
  \<^verbatim>\<open>[(x, y) for y in range(height) for x in range(width) if tiles[y][x] == '.']\<close>
\<close>

definition all_positions :: "game_map \<Rightarrow> pos list" where
  "all_positions m = concat (map (\<lambda>ty. map (\<lambda>tx. (tx, ty)) (py_range 0 (width m)))
                              (py_range 0 (height m)))"

definition find_empty_tiles :: "game_map \<Rightarrow> error + pos list" where
  "find_empty_tiles m =
     filter_res (\<lambda>(tx, ty). andthen (get_tile (tiles m) tx ty) (\<lambda>c. Inr (c = CHR ''.'')))
       (all_positions m)"

text \<open>
  The generator's working state during step 3: the map, the pool \<^verbatim>\<open>empty_tiles\<close>, the
  enemy store, the next item identity and the random tape.
\<close>

record placing =
  gmap :: game_map
  empty_tiles :: "pos list"
  store :: "enemy list"
  fresh_oid :: nat
  draws :: "nat list"

text \<open>
  \<^verbatim>\<open>x, y = random.choice(empty_tiles); empty_tiles.remove((x, y))\<close>, shared by all
  placements.
\<close>

definition draw_tile :: "placing \<Rightarrow> error + (pos \<times> placing)" where
  "draw_tile s =
     andthen (choice (empty_tiles s) (draws s)) (\<lambda>(p, tape').
       Inr (p, s\<lparr>empty_tiles := remove1 p (empty_tiles s), draws := tape'\<rparr>))"

definition mark :: "pos \<Rightarrow> char \<Rightarrow> placing \<Rightarrow> error + placing" where
  "mark p c s =
     andthen (set_tile (tiles (gmap s)) (fst p) (snd p) c) (\<lambda>t.
       Inr (s\<lparr>gmap := (gmap s)\<lparr>tiles := t\<rparr>\<rparr>))"

definition place_player :: "placing \<Rightarrow> error + placing" where
  "place_player s =
     andthen (draw_tile s) (\<lambda>(p, s).
       mark p CHR ''P'' (s\<lparr>gmap := (gmap s)\<lparr>player_start := p\<rparr>\<rparr>))"

text \<open>
  The exit: \<^verbatim>\<open>while True\<close>, one draw per round, until the tile is far enough from the
  start. The recursion is on the tape; a rejected tile stays in the pool.
\<close>

definition far_enough :: "game_map \<Rightarrow> pos \<Rightarrow> bool" where
  "far_enough m p \<longleftrightarrow>
     \<bar>fst p - fst (player_start m)\<bar> > width m div 4 \<or>
     \<bar>snd p - snd (player_start m)\<bar> > height m div 4"

fun place_exit_loop :: "placing \<Rightarrow> nat list \<Rightarrow> error + placing" where
  "place_exit_loop s [] = andthen (choice (empty_tiles s) []) (\<lambda>_. Inl EndOfDraws)"
| "place_exit_loop s (d # tape') =
     andthen (choice (empty_tiles s) (d # tape')) (\<lambda>(p, _).
       let s = s\<lparr>gmap := (gmap s)\<lparr>exit_location := p\<rparr>\<rparr>
       in if far_enough (gmap s) p then
            mark p CHR ''E'' (s\<lparr>empty_tiles := remove1 p (empty_tiles s), draws := tape'\<rparr>)
          else place_exit_loop s tape')"

definition place_exit :: "placing \<Rightarrow> error + placing" where
  "place_exit s = place_exit_loop s (draws s)"

text \<open>The shop, on a shop floor: a draw is redone while it hits the start or the exit.\<close>

fun place_shop_loop :: "placing \<Rightarrow> nat list \<Rightarrow> error + placing" where
  "place_shop_loop s [] = andthen (choice (empty_tiles s) []) (\<lambda>_. Inl EndOfDraws)"
| "place_shop_loop s (d # tape') =
     andthen (choice (empty_tiles s) (d # tape')) (\<lambda>(p, _).
       if p \<noteq> player_start (gmap s) \<and> p \<noteq> exit_location (gmap s) then
         mark p CHR ''S''
           (s\<lparr>empty_tiles := remove1 p (empty_tiles s), draws := tape',
              gmap := (gmap s)\<lparr>shop_location := Some p\<rparr>\<rparr>)
       else place_shop_loop s tape')"

definition place_shop :: "bool \<Rightarrow> placing \<Rightarrow> error + placing" where
  "place_shop is_shop_floor s =
     (if is_shop_floor then place_shop_loop s (draws s) else Inr s)"

text \<open>
  Traps. \<^verbatim>\<open>int(len(empty_tiles) * TRAP_SPAWN_CHANCE)\<close> with the chance 0.033: the exact
  value \<open>\<lfloor>33 n / 1000\<rfloor>\<close> is what the double computation gives for every pool below 1000
  tiles.
\<close>

fun place_traps :: "nat \<Rightarrow> placing \<Rightarrow> error + placing" where
  "place_traps 0 s = Inr s"
| "place_traps (Suc k) s =
     (if empty_tiles s = [] then Inr s
      else andthen (draw_tile s) (\<lambda>((tx, ty), s).
             place_traps k
               (s\<lparr>gmap := (gmap s)\<lparr>traps_on_map :=
                    dict_set (tx, ty) (Trap tx ty TRAP_DAMAGE_BASE) (traps_on_map (gmap s))\<rparr>\<rparr>)))"

text \<open>
  \<^verbatim>\<open>random.choice([HealthPotion(), EnergyCell(), EnergyPack(), LaserPistol(),
  PlasmaRifle(), ScrapArmor(), ReinforcedVest()])\<close>: seven objects are built, one is
  kept.
\<close>

definition spawnable :: "item_class list" where
  "spawnable =
     [HealthPotion, EnergyCell, EnergyPack, LaserPistol, PlasmaRifle, ScrapArmor, ReinforcedVest]"

definition random_item :: "nat \<Rightarrow> nat list \<Rightarrow> error + (item \<times> nat \<times> nat list)" where
  "random_item next tape =
     andthen
       (choice (map (\<lambda>(i, c). \<lparr>oid = next + i, cls = c\<rparr>) (enumerate 0 spawnable)) tape)
       (\<lambda>(it, tape). Inr (it, next + length spawnable, tape))"

text \<open>
  \<^verbatim>\<open>Enemy.create_random_enemy\<close>. The scaling \<^verbatim>\<open>int(base * (1 + (player_level - 1) * 0.2))\<close>
  is taken exactly, \<open>base * (player_level + 4) / 5\<close> truncated towards zero; the double
  arithmetic of the source can come out one lower (50 at level 19 gives 229, not 230).
  No statement below depends on the stats of a generated enemy.
\<close>

definition enemy_types :: "(string \<times> int \<times> int \<times> int \<times> int \<times> int \<times> int \<times> char) list" where
  "enemy_types =
     [(''Cyber-Drone'', 30, 8, 3, 7, 20, 5, CHR ''D''),
      (''Mutant Scavenger'', 40, 12, 5, 6, 30, 8, CHR ''S''),
      (''Rogue Android'', 50, 15, 7, 8, 40, 10, CHR ''A''),
      (''Alien Hunter'', 60, 18, 9, 9, 50, 15, CHR ''H'')]"

definition scaled :: "int \<Rightarrow> int \<Rightarrow> int" where
  "scaled base player_level =
     (let v = base * (player_level + 4) in if 0 \<le> v then v div 5 else - ((- v) div 5))"

definition Enemy ::
  "string \<Rightarrow> int \<Rightarrow> int \<Rightarrow> int \<Rightarrow> int \<Rightarrow> int \<Rightarrow> int \<Rightarrow> char \<Rightarrow> item option \<Rightarrow> enemy" where
  "Enemy nm h atk dfn spd xpv cv glyph dropped =
     \<lparr>name = nm, max_hp = h, hp = h, attack = atk, defense = dfn, speed = spd, level = 1,
      pos_x = - 1, pos_y = - 1, xp_value = xpv, credit_value = cv, item_drop = dropped,
      symbol = glyph\<rparr>"

definition create_random_enemy ::
  "int \<Rightarrow> nat \<Rightarrow> nat list \<Rightarrow> error + (enemy \<times> nat \<times> nat list)" where
  "create_random_enemy player_level next tape =
     andthen (choice enemy_types tape)
       (\<lambda>((nm, base_hp, base_atk, base_def, base_spd, base_xp, base_credits, glyph), tape).
          andthen (random_less (3 / 10) tape) (\<lambda>(drops, tape).
            andthen
              (if drops then andthen (random_item next tape)
                               (\<lambda>(it, next, tape). Inr (Some it, next, tape))
               else Inr (None, next, tape))
              (\<lambda>(dropped, next, tape).
                 Inr (Enemy nm (scaled base_hp player_level) (scaled base_atk player_level)
                        (scaled base_def player_level) (scaled base_spd player_level)
                        (scaled base_xp player_level) (scaled base_credits player_level)
                        glyph dropped,
                      next, tape))))"

fun place_enemies :: "int \<Rightarrow> nat \<Rightarrow> placing \<Rightarrow> error + placing" where
  "place_enemies player_level 0 s = Inr s"
| "place_enemies player_level (Suc k) s =
     (if empty_tiles s = [] then Inr s
      else andthen (draw_tile s) (\<lambda>((ex, ey), s).
             andthen (create_random_enemy player_level (fresh_oid s) (draws s))
               (\<lambda>(enemy, next, tape').
                  place_enemies player_level k
                    (s\<lparr>store := store s @ [enemy\<lparr>pos_x := ex, pos_y := ey\<rparr>],
                       gmap := (gmap s)\<lparr>entities := entities (gmap s) @ [length (store s)]\<rparr>,
                       fresh_oid := next, draws := tape'\<rparr>))))"

fun place_items :: "nat \<Rightarrow> placing \<Rightarrow> error + placing" where
  "place_items 0 s = Inr s"
| "place_items (Suc k) s =
     (if empty_tiles s = [] then Inr s
      else andthen (draw_tile s) (\<lambda>(p, s).
             andthen (random_item (fresh_oid s) (draws s)) (\<lambda>(it, next, tape').
               place_items k
                 (s\<lparr>gmap := (gmap s)\<lparr>items_on_map := dict_set p it (items_on_map (gmap s))\<rparr>,
                    fresh_oid := next, draws := tape'\<rparr>))))"

text \<open>
  Crystals: \<^verbatim>\<open>CRYSTAL_SPAWN_CHANCE_BASE + current_level_num * CRYSTAL_SPAWN_CHANCE_PER_LEVEL\<close>
  is \<open>0.02 + 0.005 n\<close>.
\<close>

fun place_crystals :: "rat \<Rightarrow> nat \<Rightarrow> placing \<Rightarrow> error + placing" where
  "place_crystals chance 0 s = Inr s"
| "place_crystals chance (Suc k) s =
     (if empty_tiles s = [] then Inr s
      else andthen (random_less chance (draws s)) (\<lambda>(spawn, tape').
             if spawn then
               andthen (draw_tile (s\<lparr>draws := tape'\<rparr>)) (\<lambda>(p, s).
                 place_crystals chance k
                   (s\<lparr>gmap := (gmap s)\<lparr>items_on_map :=
                        dict_set p \<lparr>oid = fresh_oid s, cls = EnergyCrystal\<rparr>
                          (items_on_map (gmap s))\<rparr>,
                      fresh_oid := Suc (fresh_oid s)\<rparr>))
             else place_crystals chance k (s\<lparr>draws := tape'\<rparr>)))"

text \<open>Step 3 from a non-empty pool.\<close>

definition place_features :: "int \<Rightarrow> int \<Rightarrow> bool \<Rightarrow> placing \<Rightarrow> error + placing" where
  "place_features player_level level_num is_shop_floor s =
     andthen (place_player s) (\<lambda>s.
     andthen (place_exit s) (\<lambda>s.
     andthen (place_shop is_shop_floor s) (\<lambda>s.
     andthen (place_traps (nat ((int (length (empty_tiles s)) * 33) div 1000)) s) (\<lambda>s.
     andthen (randint 1 MAX_ENEMIES_PER_LEVEL (draws s)) (\<lambda>(num_enemies, tape').
     andthen (place_enemies player_level (nat num_enemies) (s\<lparr>draws := tape'\<rparr>)) (\<lambda>s.
     andthen (randint 0 MAX_ITEMS_PER_LEVEL (draws s)) (\<lambda>(num_items, tape').
     andthen (place_items (nat num_items) (s\<lparr>draws := tape'\<rparr>)) (\<lambda>s.
     andthen (randint 0 2 (draws s)) (\<lambda>(tries, tape').
       place_crystals (2 / 100 + of_int level_num * (5 / 1000)) (nat tries)
         (s\<lparr>draws := tape'\<rparr>))))))))))"

subsection \<open>\<^verbatim>\<open>generate_map\<close>\<close>

lemma randint_length:
  "randint a b tape = Inr (v, tape') \<Longrightarrow> length tape = Suc (length tape')"
  by (auto split: if_splits list.splits)

lemma draw_room_length:
  assumes "draw_room m tape = Inr (r, tape')"
  shows "length tape = 4 + length tape'"
proof -
  from assms obtain w t1 h t2 rx t3 ry where
    "randint ROOM_MIN_SIZE ROOM_MAX_SIZE tape = Inr (w, t1)"
    "randint ROOM_MIN_SIZE ROOM_MAX_SIZE t1 = Inr (h, t2)"
    "randint 1 (width m - w - 1) t2 = Inr (rx, t3)"
    "randint 1 (height m - h - 1) t3 = Inr (ry, tape')"
    by (auto simp: draw_room_def simp del: randint.simps elim!: andthen_InrE)
  from this[THEN randint_length] show ?thesis by simp
qed

lemma place_rooms_length:
  "place_rooms k m tape = Inr (m', tape') \<Longrightarrow> length tape = 4 * k + length tape'"
proof (induction k arbitrary: m tape)
  case 0
  then show ?case by simp
next
  case (Suc k)
  from Suc.prems obtain nr t4 m1 where
    d: "draw_room m tape = Inr (nr, t4)" and r: "place_rooms k m1 t4 = Inr (m', tape')"
    by (auto elim!: andthen_InrE)
  from draw_room_length[OF d] Suc.IH[OF r] show ?case by simp
qed

lemma carve_map_length:
  assumes "carve_map self tape = Inr (m, tape')"
  shows "length tape = 4 * MAX_ROOMS + length tape'"
proof -
  from assms obtain m0 m1 where "place_rooms MAX_ROOMS m0 tape = Inr (m1, tape')"
    unfolding carve_map_def Let_def
    by (elim andthen_InrE) (auto split: if_splits elim!: andthen_InrE)
  then show ?thesis by (rule place_rooms_length)
qed

text \<open>
  The whole method. With an empty pool the map is generated again, on the rest of the
  tape. The result is the final working state: the map, the store with the new enemies,
  the next item identity and the unused draws.
\<close>

function generate_map ::
  "game_map \<Rightarrow> int \<Rightarrow> int \<Rightarrow> bool \<Rightarrow> enemy list \<Rightarrow> nat \<Rightarrow> nat list \<Rightarrow> error + placing" where
  "generate_map self player_level level_num is_shop_floor h next tape =
     andthen (carve_map self tape) (\<lambda>(m, tape').
       andthen (find_empty_tiles m) (\<lambda>pool.
         if pool = [] then
           generate_map m player_level level_num is_shop_floor h next tape'
         else
           place_features player_level level_num is_shop_floor
             \<lparr>gmap = m, empty_tiles = pool, store = h, fresh_oid = next, draws = tape'\<rparr>))"
  by pat_completeness auto
termination
proof (relation "measure (\<lambda>(self, pl, cl, sh, h, next, tape). length tape)")
  show "wf (measure (\<lambda>(self, pl, cl, sh, h, next, tape). length tape))"
    by simp
next
  fix self :: game_map and player_level level_num :: int and is_shop_floor :: bool
    and h :: "enemy list" and "next" :: nat and tape :: "nat list" and v m tape' pool
  assume c: "carve_map self tape = Inr v" and v: "(m, tape') = v"
  from carve_map_length[OF c[folded v]] have "length tape' < length tape"
    by (simp add: MAX_ROOMS_def)
  then show "((m, player_level, level_num, is_shop_floor, h, next, tape'),
              self, player_level, level_num, is_shop_floor, h, next, tape)
             \<in> measure (\<lambda>(self, pl, cl, sh, h, next, tape). length tape)"
    by simp
qed

text \<open>
  \<^verbatim>\<open>Game.generate_level\<close>: a new 40 by 20 map, every fifth floor a shop floor, and the
  player moved to the start.
\<close>

definition MAP_WIDTH :: int where "MAP_WIDTH = 40"
definition MAP_HEIGHT :: int where "MAP_HEIGHT = 20"

definition shop_floor :: "int \<Rightarrow> bool" where
  "shop_floor n \<longleftrightarrow> n mod 5 = 0 \<and> n > 0"

definition generate_level :: "game \<Rightarrow> nat list \<Rightarrow> error + (game \<times> nat list)" where
  "generate_level g tape =
     andthen
       (generate_map (GameMap MAP_WIDTH MAP_HEIGHT) (level (player g)) (current_level_num g)
          (shop_floor (current_level_num g)) (heap g) (next_oid g) tape)
       (\<lambda>s. Inr (g\<lparr>current_map := gmap s, heap := store s, next_oid := fresh_oid s,
                     player := (player g)\<lparr>pos_x := fst (player_start (gmap s)),
                                          pos_y := snd (player_start (gmap s))\<rparr>\<rparr>,
                  draws s))"

subsection \<open>What a generated floor holds\<close>

text \<open>
  The positions of the features of a floor, in the order of their placement: the start,
  the exit, the shop if there is one, the keys of \<open>traps_on_map\<close>, the positions of the
  enemies of \<open>entities\<close>, and the keys of \<open>items_on_map\<close>.
\<close>

definition enemy_position :: "enemy list \<Rightarrow> nat \<Rightarrow> pos" where
  "enemy_position h r = (pos_x (h ! r), pos_y (h ! r))"

definition feature_positions :: "game_map \<Rightarrow> enemy list \<Rightarrow> pos list" where
  "feature_positions m h =
     player_start m # exit_location m #
     (case shop_location m of None \<Rightarrow> [] | Some p \<Rightarrow> [p]) @
     map fst (traps_on_map m) @ map (enemy_position h) (entities m) @ map fst (items_on_map m)"

text \<open>
  A tile the player can stand on (what \<^verbatim>\<open>move_player\<close> accepts: in bounds and not a
  wall), and reachability by steps between tiles that share an edge.
\<close>

definition walkable :: "game_map \<Rightarrow> pos \<Rightarrow> bool" where
  "walkable m p \<longleftrightarrow> blocked m (fst p) (snd p) = Inr False"

inductive connected_in :: "pos set \<Rightarrow> pos \<Rightarrow> pos \<Rightarrow> bool" for S :: "pos set" where
  here: "p \<in> S \<Longrightarrow> connected_in S p p"
| step: "connected_in S p q \<Longrightarrow> r \<in> S \<Longrightarrow> \<bar>fst r - fst q\<bar> + \<bar>snd r - snd q\<bar> = 1 \<Longrightarrow>
         connected_in S p r"

definition reachable :: "game_map \<Rightarrow> pos \<Rightarrow> pos \<Rightarrow> bool" where
  "reachable m p q \<longleftrightarrow> connected_in {t. walkable m t} p q"

section \<open>Small concrete games\<close>

text \<open>A corridor of three floor tiles with a trap on the middle one.\<close>

definition trap_floor :: game_map where
  "trap_floor =
     (GameMap 3 1)\<lparr>tiles := [''...''], traps_on_map := [((1, 0), Trap 1 0 TRAP_DAMAGE_BASE)]\<rparr>"

definition trap_game :: "string \<Rightarrow> game" where
  "trap_game ct =
     \<lparr>player = Player ''Ann'' 100 10 5 10 ct 0 0, current_map = trap_floor,
      game_over = False, current_level_num = 1, original_player_speed = 10,
      original_player_defense = 5, heap = [], next_oid = 0\<rparr>"

text \<open>
  A 4 by 3 room inside walls, the player at \<open>(1, 1)\<close>, and three enemies: one next to
  the player, one two tiles away diagonally, one dead.
\<close>

definition drone :: "int \<Rightarrow> int \<Rightarrow> enemy" where
  "drone ex ey = (Enemy ''Cyber-Drone'' 30 8 3 7 20 5 CHR ''D'' None)\<lparr>pos_x := ex, pos_y := ey\<rparr>"

definition arena :: game_map where
  "arena = (GameMap 6 5)\<lparr>tiles := [''######'', ''#....#'', ''#....#'', ''#....#'', ''######''],
                          entities := [0, 1, 2]\<rparr>"

definition arena_game :: game where
  "arena_game =
     \<lparr>player = Player ''Ann'' 110 15 5 10 ''soldier'' 1 1, current_map = arena,
      game_over = False, current_level_num = 1, original_player_speed = 10,
      original_player_defense = 5,
      heap = [drone 2 1, drone 3 3, (drone 4 1)\<lparr>hp := 0\<rparr>], next_oid = 0\<rparr>"

text \<open>
  Fights in the arena. The soldier wears the starting equipment (attack 15 + 5, defense
  5 + 3), has learned both soldier skills and carries a Reinforced Vest; the hunter is
  one hit from defeat.
\<close>

definition veteran :: player where
  "veteran =
     (Player ''Ann'' 110 20 8 10 ''soldier'' 1 1)
       \<lparr>inventory := [\<lparr>oid = 0, cls = LaserPistol\<rparr>, \<lparr>oid = 1, cls = ScrapArmor\<rparr>,
                      \<lparr>oid = 2, cls = ReinforcedVest\<rparr>],
        equipped_weapon := Some \<lparr>oid = 0, cls = LaserPistol\<rparr>,
        equipped_armor := Some \<lparr>oid = 1, cls = ScrapArmor\<rparr>,
        learned_skills := [Skill ''Power Shot'' 15 soldier_power_shot_effect,
                           Skill ''Grenade Toss'' 30 soldier_grenade_toss_effect]\<rparr>"

definition hunter :: "int \<Rightarrow> int \<Rightarrow> enemy" where
  "hunter ex ey =
     (Enemy ''Alien Hunter'' 60 18 9 9 50 15 CHR ''H'' (Some \<lparr>oid = 3, cls = HealthPotion\<rparr>))
       \<lparr>hp := 5, pos_x := ex, pos_y := ey\<rparr>"

definition fight_game :: game where
  "fight_game =
     \<lparr>player = veteran, current_map = arena,
      game_over = False, current_level_num = 1, original_player_speed = 10,
      original_player_defense = 5,
      heap = [(drone 2 1)\<lparr>hp := 12\<rparr>, hunter 3 3, (drone 4 1)\<lparr>hp := 0\<rparr>], next_oid = 4\<rparr>"

text \<open>
  A run of the generator on a 14 by 9 map. The tape makes two rooms (the other eight
  candidates overlap the first), then places the start, the exit, a shop, one trap, two
  enemies that carry a drop, one item and two crystals. \<open>small_level\<close> is the state
  the run ends in.
\<close>

definition small_tape :: "nat list" where
  "small_tape =
     [0, 0, 0, 0, 0, 0, 7, 1] @ replicate 32 0 @
     [0, 50, 5, 9, 1, 30, 1, 0, 2, 40, 3, 0, 4, 1, 7, 2, 2, 0, 20, 0, 25]"

definition small_level :: placing where
  "small_level =
     \<lparr>gmap =
        \<lparr>width = 14, height = 9,
         tiles =
           [''##############'', ''#P....########'', ''#.S...##.....#'',
            ''#............#'', ''#.....##.....#'', ''#.....##.....#'',
            ''########....E#'', ''##############'', ''##############''],
         player_start = (1, 1), exit_location = (12, 6),
         shop_location = Some (2, 2), entities = [0, 1],
         items_on_map =
           [((5, 2), \<lparr>oid = 16, cls = EnergyPack\<rparr>),
            ((10, 3), \<lparr>oid = 21, cls = EnergyCrystal\<rparr>),
            ((4, 4), \<lparr>oid = 22, cls = EnergyCrystal\<rparr>)],
         traps_on_map = [((9, 2), Trap 9 2 15)],
         rooms =
           [\<lparr>x1 = 1, y1 = 1, x2 = 6, y2 = 6\<rparr>, \<lparr>x1 = 8, y1 = 2, x2 = 13, y2 = 7\<rparr>]\<rparr>,
      empty_tiles =
        [(2, 1), (3, 1), (4, 1), (5, 1), (1, 2), (3, 2), (4, 2), (8, 2),
         (10, 2), (11, 2), (12, 2), (1, 3), (2, 3), (3, 3), (4, 3),
         (5, 3), (6, 3), (7, 3), (8, 3), (9, 3), (11, 3), (12, 3), (1, 4),
         (2, 4), (3, 4), (5, 4), (8, 4), (10, 4), (11, 4), (12, 4),
         (1, 5), (2, 5), (3, 5), (4, 5), (5, 5), (8, 5), (9, 5), (11, 5),
         (12, 5), (8, 6), (9, 6), (10, 6), (11, 6)],
      store =
        [(Enemy ''Mutant Scavenger'' 40 12 5 6 30 8 CHR ''S''
            (Some \<lparr>oid = 2, cls = EnergyPack\<rparr>))\<lparr>pos_x := 9, pos_y := 4\<rparr>,
         (Enemy ''Alien Hunter'' 60 18 9 9 50 15 CHR ''H''
            (Some \<lparr>oid = 11, cls = PlasmaRifle\<rparr>))\<lparr>pos_x := 10, pos_y := 5\<rparr>],
      fresh_oid = 23, draws = []\<rparr>"

section \<open>Verification: progression\<close>

lemma raise_stats_eq:
  "raise_stats p = p\<lparr>level := level p + 1, max_hp := max_hp p + 15, hp := max_hp p + 15,
     attack := attack p + 3, defense := defense p + 2, speed := speed p + 1,
     max_energy := max_energy p + 10, energy := max_energy p + 10,
     xp := xp p - xp_to_next_level p, xp_to_next_level := xp_threshold (level p + 1)\<rparr>"
  unfolding raise_stats_def Let_def by simp

lemma unlock_fields:
  "level (unlock n sk p) = level p" "max_hp (unlock n sk p) = max_hp p"
  "hp (unlock n sk p) = hp p" "attack (unlock n sk p) = attack p"
  "defense (unlock n sk p) = defense p" "speed (unlock n sk p) = speed p"
  "max_energy (unlock n sk p) = max_energy p" "energy (unlock n sk p) = energy p"
  "xp (unlock n sk p) = xp p" "xp_to_next_level (unlock n sk p) = xp_to_next_level p"
  "credits (unlock n sk p) = credits p" "inventory (unlock n sk p) = inventory p"
  "class_type (unlock n sk p) = class_type p"
  by (simp_all add: unlock_def)

lemma unlock_skills_fields:
  "level (unlock_skills p) = level p" "max_hp (unlock_skills p) = max_hp p"
  "hp (unlock_skills p) = hp p" "attack (unlock_skills p) = attack p"
  "defense (unlock_skills p) = defense p" "speed (unlock_skills p) = speed p"
  "max_energy (unlock_skills p) = max_energy p" "energy (unlock_skills p) = energy p"
  "xp (unlock_skills p) = xp p" "xp_to_next_level (unlock_skills p) = xp_to_next_level p"
  "credits (unlock_skills p) = credits p" "inventory (unlock_skills p) = inventory p"
  by (simp_all add: unlock_skills_def unlock_fields)

lemma level_up_fields:
  "level (level_up p) = level p + 1" "max_hp (level_up p) = max_hp p + 15"
  "hp (level_up p) = max_hp p + 15" "attack (level_up p) = attack p + 3"
  "defense (level_up p) = defense p + 2" "speed (level_up p) = speed p + 1"
  "max_energy (level_up p) = max_energy p + 10" "energy (level_up p) = max_energy p + 10"
  "xp (level_up p) = xp p - xp_to_next_level p"
  "xp_to_next_level (level_up p) = xp_threshold (level p + 1)"
  "credits (level_up p) = credits p" "inventory (level_up p) = inventory p"
  by (simp_all add: level_up_def unlock_skills_fields raise_stats_eq)

lemma xp_threshold_2: "xp_threshold 2 = 75"
  by (simp add: xp_threshold_def XP_TO_LEVEL_UP_BASE_def XP_LEVEL_MULTIPLIER_def)




section \<open>Verification: traps\<close>

lemma dict_get_del: "dict_get (dict_del k d) k = None"
  by (simp add: dict_get_def dict_del_def delete_conv)

lemma trigger_again: "trigger (fst (trigger tr p)) q = (fst (trigger tr p), q)"
  by (simp add: trigger_def Let_def)

lemma trigger_first:
  "\<not> triggered tr \<Longrightarrow>
   triggered (fst (trigger tr p)) \<and>
   snd (trigger tr p) =
     (if class_type p = ''scout'' then p else p\<lparr>hp := max 0 (hp p - damage tr)\<rparr>)"
  by (simp add: trigger_def Let_def take_damage_def max_def)

lemma move_player_enter_trap:
  assumes t: "target_tile d (player g) = Some (nx, ny)"
    and b: "blocked (current_map g) nx ny = Inr False"
    and tr: "dict_get (traps_on_map (current_map g)) (nx, ny) = Some tr" "\<not> triggered tr"
  shows "\<exists>g'. (move_player_enter d g = Inr (Stopped g') \<or>
                move_player_enter d g = Inr (Entering g' nx ny)) \<and>
               dict_get (traps_on_map (current_map g')) (nx, ny) = None \<and>
               player g' = snd (trigger tr (player g))"
proof -
  obtain tr' p' where tp: "trigger tr (player g) = (tr', p')"
    by (cases "trigger tr (player g)")
  define g' where "g' = g\<lparr>player := p', current_map := (current_map g)\<lparr>traps_on_map :=
                    dict_del (nx, ny) (traps_on_map (current_map g))\<rparr>\<rparr>"
  from t b tr have "move_player_enter d g =
      (if \<not> is_alive p' then Inr (Stopped g') else Inr (Entering g' nx ny))"
    unfolding move_player_enter_def Let_def g'_def
    by (simp add: tp)
  moreover have "dict_get (traps_on_map (current_map g')) (nx, ny) = None"
    by (simp add: g'_def dict_get_del)
  moreover have "player g' = snd (trigger tr (player g))"
    by (simp add: g'_def tp)
  ultimately show ?thesis by (cases "is_alive p'") auto
qed

text \<open>
  C5. A trap applies its damage at most once. Triggering a trap that has already been
  triggered changes neither the trap nor the player. The first trigger marks the trap as
  triggered; a scout is unchanged, every other class loses the trap's damage with \<open>hp\<close>
  clamped at 0, and the damage of a trap as the generator builds it is
  \<open>TRAP_DAMAGE_BASE = 15\<close>. When \<^verbatim>\<open>move_player\<close> steps onto a walkable tile with an
  untriggered trap, the trap is triggered and its key is gone from \<open>traps_on_map\<close>,
  whether the player is a scout or not and whether the player survives (\<open>Entering\<close>) or
  not (\<open>Stopped\<close>).
\<close>

theorem trap_fires_once:
  "trigger (fst (trigger tr p)) q = (fst (trigger tr p), q) \<and>
   (\<not> triggered tr \<longrightarrow>
      triggered (fst (trigger tr p)) \<and>
      snd (trigger tr p) =
        (if class_type p = ''scout'' then p else p\<lparr>hp := max 0 (hp p - damage tr)\<rparr>)) \<and>
   damage (Trap tx ty TRAP_DAMAGE_BASE) = 15 \<and>
   (target_tile d (player g) = Some (nx, ny) \<and>
    blocked (current_map g) nx ny = Inr False \<and>
    dict_get (traps_on_map (current_map g)) (nx, ny) = Some tr \<and> \<not> triggered tr \<longrightarrow>
    (\<exists>g'. (move_player_enter d g = Inr (Stopped g') \<or>
           move_player_enter d g = Inr (Entering g' nx ny)) \<and>
          dict_get (traps_on_map (current_map g')) (nx, ny) = None \<and>
          player g' = snd (trigger tr (player g))))"
proof -
  have "damage (Trap tx ty TRAP_DAMAGE_BASE) = 15"
    by (simp add: Trap_def TRAP_DAMAGE_BASE_def)
  with trigger_again [of tr p q] trigger_first [of tr p]
    move_player_enter_trap [of d g nx ny tr]
  show ?thesis by blast
qed

lemmas trap_game_defs =
  trap_game_def trap_floor_def GameMap_def Player_def Trap_def TRAP_DAMAGE_BASE_def
  XP_TO_LEVEL_UP_BASE_def INITIAL_PLAYER_ENERGY_def wall_grid_def

text \<open>
  A soldier and a scout step east onto the trapped tile \<open>(1, 0)\<close>: the soldier goes from
  100 to 85 HP, the scout keeps 100, and the trap is gone in both games.
\<close>

theorem trap_fires_once_witness:
  "\<not> triggered (Trap 1 0 TRAP_DAMAGE_BASE) \<and>
   target_tile ''d'' (player (trap_game ''soldier'')) = Some (1, 0) \<and>
   blocked (current_map (trap_game ''soldier'')) 1 0 = Inr False \<and>
   dict_get (traps_on_map (current_map (trap_game ''soldier''))) (1, 0)
     = Some (Trap 1 0 TRAP_DAMAGE_BASE) \<and>
   hp (snd (trigger (Trap 1 0 TRAP_DAMAGE_BASE) (player (trap_game ''soldier'')))) = 85 \<and>
   hp (snd (trigger (Trap 1 0 TRAP_DAMAGE_BASE) (player (trap_game ''scout'')))) = 100 \<and>
   (\<exists>g'. (move_player_enter ''d'' (trap_game ''soldier'') = Inr (Stopped g') \<or>
          move_player_enter ''d'' (trap_game ''soldier'') = Inr (Entering g' 1 0)) \<and>
         dict_get (traps_on_map (current_map g')) (1, 0) = None \<and>
         player g' = snd (trigger (Trap 1 0 TRAP_DAMAGE_BASE) (player (trap_game ''soldier''))))"
proof -
  have h: "\<not> triggered (Trap 1 0 TRAP_DAMAGE_BASE)"
    "target_tile ''d'' (player (trap_game ''soldier'')) = Some (1, 0)"
    "blocked (current_map (trap_game ''soldier'')) 1 0 = Inr False"
    "dict_get (traps_on_map (current_map (trap_game ''soldier''))) (1, 0)
       = Some (Trap 1 0 TRAP_DAMAGE_BASE)"
    by (simp_all add: trap_game_defs target_tile_def blocked_def in_bounds_def get_tile_def
        py_index_def dict_get_def)
  have v: "hp (snd (trigger (Trap 1 0 TRAP_DAMAGE_BASE) (player (trap_game ''soldier'')))) = 85"
    "hp (snd (trigger (Trap 1 0 TRAP_DAMAGE_BASE) (player (trap_game ''scout'')))) = 100"
    by (simp_all add: trap_game_defs trigger_def take_damage_def)
  from h v
    trap_fires_once [of "Trap 1 0 TRAP_DAMAGE_BASE" "player (trap_game ''soldier'')"
      "player (trap_game ''soldier'')" 1 0 "''d''" "trap_game ''soldier''" 1 0]
  show ?thesis by blast
qed


section \<open>Verification: enemy turns\<close>

lemma py_index_in_range: "0 \<le> i \<Longrightarrow> i < int (length xs) \<Longrightarrow> py_index xs i = Some (nat i)"
  by (simp add: py_index_def)

lemma get_tile_grid_ok:
  assumes "grid_ok m" "in_bounds m tx ty"
  shows "get_tile (tiles m) tx ty = Inr (tiles m ! nat ty ! nat tx)"
proof -
  from assms have y: "0 \<le> ty" "ty < int (length (tiles m))"
    by (auto simp: grid_ok_def in_bounds_def)
  then have "tiles m ! nat ty \<in> set (tiles m)" by simp
  with assms have x: "0 \<le> tx" "tx < int (length (tiles m ! nat ty))"
    by (auto simp: grid_ok_def in_bounds_def)
  show ?thesis
    by (simp add: get_tile_def py_index_in_range[OF y] py_index_in_range[OF x])
qed

lemma blocked_grid_ok:
  assumes "grid_ok m"
  shows "blocked m tx ty = Inr (\<not> in_bounds m tx ty \<or> get_tile (tiles m) tx ty = Inr CHR ''#'')"
  using get_tile_grid_ok[OF assms] by (simp add: blocked_def)

lemma adjacent_iff:
  "((dx::int) = 1 \<and> dy = 0) \<or> (dx = 0 \<and> dy = 1) \<longleftrightarrow> dx + dy = 1" if "0 \<le> dx" "0 \<le> dy"
  using that by auto


lemmas arena_defs =
  arena_game_def arena_def drone_def Enemy_def GameMap_def Player_def wall_grid_def
  XP_TO_LEVEL_UP_BASE_def INITIAL_PLAYER_ENERGY_def




section \<open>Verification: combat\<close>

subsection \<open>What a fight leaves alone\<close>

text \<open>
  The player's progress (XP, threshold, level, credits) and the rewards an enemy carries.
\<close>

definition progress :: "player \<Rightarrow> int \<times> int \<times> int \<times> int" where
  "progress p = (xp p, xp_to_next_level p, level p, credits p)"

definition rewards :: "enemy \<Rightarrow> int \<times> int \<times> item option" where
  "rewards e = (xp_value e, credit_value e, item_drop e)"

definition keeps :: "nat \<Rightarrow> game \<Rightarrow> game \<Rightarrow> bool" where
  "keeps e g g' \<longleftrightarrow>
     progress (player g') = progress (player g) \<and> rewards (heap g' ! e) = rewards (heap g ! e)"

lemma keeps_refl [simp]: "keeps e g g"
  by (simp add: keeps_def)

lemma keeps_trans: "keeps e g g1 \<Longrightarrow> keeps e g1 g2 \<Longrightarrow> keeps e g g2"
  by (simp add: keeps_def)

lemma rewards_take_damage [simp]: "rewards (take_damage d e) = rewards e"
  by (simp add: rewards_def take_damage_def Let_def)

lemma rewards_update_damage [simp]:
  "rewards (h[r := take_damage d (h ! r)] ! e) = rewards (h ! e)"
proof (cases "r = e \<and> e < length h")
  case True
  then show ?thesis by simp
next
  case False
  then show ?thesis by (cases "r = e") (simp_all add: list_update_beyond)
qed

lemma rewards_grenade_loop [simp]: "rewards (grenade_loop d rs h ! e) = rewards (h ! e)"
  by (induction rs arbitrary: h) simp_all

lemma progress_updates [simp]:
  "progress (p\<lparr>hp := a\<rparr>) = progress p" "progress (p\<lparr>energy := a\<rparr>) = progress p"
  "progress (p\<lparr>speed := a\<rparr>) = progress p" "progress (p\<lparr>defense := a\<rparr>) = progress p"
  "progress (p\<lparr>attack := a\<rparr>) = progress p" "progress (p\<lparr>inventory := i\<rparr>) = progress p"
  "progress (p\<lparr>equipped_weapon := w\<rparr>) = progress p"
  "progress (p\<lparr>equipped_armor := w\<rparr>) = progress p"
  "progress (p\<lparr>pos_x := a\<rparr>) = progress p" "progress (p\<lparr>pos_y := a\<rparr>) = progress p"
  by (simp_all add: progress_def)

lemma progress_consumable [simp]: "progress (consumable_effect c p) = progress p"
  by (cases c) simp_all

lemma progress_use_item [simp]: "progress (use_item it p) = progress p"
  by (simp add: use_item_def Let_def)

lemma progress_equip_item: "equip_item it p = Inr p' \<Longrightarrow> progress p' = progress p"
  unfolding equip_item_def
  by (auto split: if_splits option.splits elim!: andthen_InrE)

lemma keeps_inventory_select: "inventory_select n g = Some (Inr g') \<Longrightarrow> keeps e g g'"
  by (auto simp: inventory_select_def Let_def keeps_def
      split: if_splits elim!: andthen_InrE dest!: progress_equip_item)

lemma keeps_handle_inventory_loop:
  "handle_inventory_loop g ins = Inr (used, g', ins') \<Longrightarrow> keeps e g g'"
  by (induction ins)
     (auto split: if_splits option.splits elim!: andthen_InrE dest: keeps_inventory_select)

lemma keeps_handle_inventory:
  "handle_inventory c g ins = Inr (used, g', ins') \<Longrightarrow> keeps e g g'"
  by (auto simp: handle_inventory_def split: if_splits elim!: andthen_InrE
      dest: keeps_handle_inventory_loop)

lemma apply_effect_keeps:
  "apply_effect eff a p h = Inr (p', h') \<Longrightarrow>
   progress p' = progress p \<and> rewards (h' ! e) = rewards (h ! e)"
  by (cases "(eff, a, p, h)" rule: apply_effect.cases)
     (auto simp: Let_def split: if_splits)

lemma skill_use_keeps:
  "skill_use sk a b p h = Inr (p', h') \<Longrightarrow>
   progress p' = progress p \<and> rewards (h' ! e) = rewards (h ! e)"
  by (auto simp: skill_use_def split: if_splits dest: apply_effect_keeps)

lemma keeps_skill_select: "skill_select enemy n g = Inr (Inr g') \<Longrightarrow> keeps e g g'"
  by (auto simp: skill_select_def Let_def keeps_def prune_dead_def
      split: if_splits elim!: andthen_InrE dest!: skill_use_keeps[where e = e])

lemma keeps_handle_skills_loop:
  "handle_skills_loop enemy g ns ins = Inr (used, g', ns', ins') \<Longrightarrow> keeps e g g'"
  by (induction ins arbitrary: ns)
     (auto split: if_splits option.splits sum.splits elim!: andthen_InrE
        dest: keeps_skill_select)

lemma keeps_handle_skills:
  "handle_skills enemy g ins = Inr (used, g', ns', ins') \<Longrightarrow> keeps e g g'"
  by (auto simp: handle_skills_def split: if_splits dest: keeps_handle_skills_loop)

lemma keeps_attempt_flee:
  "attempt_flee enemy g tape = Inr (esc, g', tape') \<Longrightarrow> keeps e g g'"
  by (auto simp: attempt_flee_def Let_def keeps_def split: if_splits
      elim!: andthen_InrE)

lemma keeps_player_turn:
  assumes "player_turn enemy g tape ins = Inr (esc, g', tape', ins')"
  shows "keeps e g g'"
proof -
  have "keeps e g (g\<lparr>heap := (heap g)[enemy := attack_target (player g) (heap g ! enemy)]\<rparr>)"
    by (simp add: keeps_def attack_target_def)
  with assms show ?thesis
    by (auto simp: player_turn_def Let_def split: if_splits elim!: andthen_InrE
        dest: keeps_handle_inventory keeps_handle_skills keeps_attempt_flee)
qed

lemma progress_attacked [simp]: "progress (attack_target a p) = progress p"
  by (simp add: attack_target_def take_damage_def Let_def)

lemma keeps_combat_for:
  "combat_for cs enemy st = Inr st' \<Longrightarrow> keeps e (fst (snd st)) (fst (snd st'))"
proof (induction cs enemy st rule: combat_for.induct)
  case (1 enemy st)
  then show ?case by simp
next
  case (2 c cs enemy active g tape ins)
  show ?case
  proof (cases "\<not> is_alive (player g) \<or> \<not> is_alive (heap g ! enemy)")
    case True
    with "2.prems" show ?thesis by auto
  next
    case False
    show ?thesis
    proof (cases c)
      case ThePlayer
      with False "2.prems" obtain esc g1 tape1 ins1 where
        pt: "player_turn enemy g tape ins = Inr (esc, g1, tape1, ins1)"
        and k: "(if esc then Inr (False, g1, tape1, ins1)
                 else combat_for cs enemy (active, g1, tape1, ins1)) = Inr st'"
        by (auto elim!: andthen_InrE)
      have k1: "keeps e g g1" using keeps_player_turn[OF pt] .
      show ?thesis
      proof (cases esc)
        case True
        with k k1 show ?thesis by auto
      next
        case esc: False
        with k have "combat_for cs enemy (active, g1, tape1, ins1) = Inr st'" by simp
        from "2.IH"(1)[OF False ThePlayer pt refl refl refl esc this] k1
        show ?thesis by (auto intro: keeps_trans)
      qed
    next
      case TheEnemy
      have "keeps e g (g\<lparr>player := attack_target (heap g ! enemy) (player g)\<rparr>)"
        by (simp add: keeps_def)
      with TheEnemy False "2.prems" "2.IH"(2) show ?thesis
        by (auto intro: keeps_trans)
    qed
  qed
qed

lemma keeps_combat_loop:
  "combat_loop enemy st = Inr st' \<Longrightarrow> keeps e (fst (snd st)) (fst (snd st'))"
proof (induction enemy st rule: combat_loop.induct)
  case (1 enemy active g tape ins)
  show ?case
  proof (cases "fighting enemy (active, g, tape, ins)")
    case False
    with "1.prems" show ?thesis by auto
  next
    case True
    with "1.prems" obtain v where
      r: "combat_for (combatants enemy g) enemy (active, g, tape, ins) = Inr v"
      and l: "combat_loop enemy v = Inr st'"
      by (auto elim!: andthen_InrE)
    from keeps_combat_for[OF r] "1.IH"[OF True r l] show ?thesis
      by (auto intro: keeps_trans)
  qed
qed


subsection \<open>The grenade\<close>

lemma grenade_loop_length [simp]: "length (grenade_loop d rs h) = length h"
  by (induction rs arbitrary: h) simp_all

lemma grenade_loop_other: "r \<notin> set rs \<Longrightarrow> grenade_loop d rs h ! r = h ! r"
  by (induction rs arbitrary: h) auto

lemma grenade_loop_hit:
  "distinct rs \<Longrightarrow> r \<in> set rs \<Longrightarrow> r < length h \<Longrightarrow>
   grenade_loop d rs h ! r =
     (if is_alive (h ! r) then take_damage (max 0 (d - defense (h ! r))) (h ! r) else h ! r)"
proof (induction rs arbitrary: h)
  case Nil
  then show ?case by simp
next
  case (Cons a rs)
  show ?case
  proof (cases "r = a")
    case True
    with Cons.prems show ?thesis by (simp add: grenade_loop_other)
  next
    case False
    with Cons.prems Cons.IH show ?thesis by simp
  qed
qed

lemma skill_select_grenade:
  assumes n: "0 < n" "n \<le> int (length (learned_skills (player g)))"
    and sk: "learned_skills (player g) ! nat (n - 1)
             = Skill ''Grenade Toss'' 30 soldier_grenade_toss_effect"
    and en: "energy (player g) \<ge> 30"
  shows "skill_select enemy n g = Inr (Inr (prune_dead
           (g\<lparr>player := (player g)\<lparr>energy := energy (player g) - 30\<rparr>,
              heap := grenade_loop (aoe_damage (player g)) (entities (current_map g)) (heap g)\<rparr>)))"
  using n en unfolding skill_select_def Let_def sk
  by (simp add: Skill_def skill_use_def aoe_damage_def)

lemma handle_skills_select:
  assumes "c \<noteq> ''b''" "py_int c = Some n" "learned_skills (player g) \<noteq> []"
  shows "handle_skills enemy g (c # ins) =
     (case skill_select enemy n g of
        Inl notice \<Rightarrow> handle_skills_loop enemy g [notice] ins
      | Inr r \<Rightarrow> andthen r (\<lambda>g'. Inr (True, g', [], ins)))"
  using assms by (simp add: handle_skills_def split: sum.splits)


lemmas fight_defs =
  fight_game_def veteran_def hunter_def arena_def drone_def Enemy_def GameMap_def Player_def
  Skill_def wall_grid_def XP_TO_LEVEL_UP_BASE_def INITIAL_PLAYER_ENERGY_def

lemmas combat_defs =
  combat_round_def combat_finish_def combatants_def fighting_def player_turn_def
  handle_skills_def handle_inventory_def skill_select_def inventory_select_def skill_use_def
  prune_dead_def defeat_rewards_def attack_target_def take_damage_def is_alive_def
  py_int_def digit_of_def equip_item_def use_item_def pop_at_def aoe_damage_def



subsection \<open>Energy\<close>

lemma apply_effect_energy:
  "apply_effect eff a p h = Inr (p', h') \<Longrightarrow> energy p' = energy p"
  by (cases "(eff, a, p, h)" rule: apply_effect.cases) (auto simp: Let_def split: if_splits)

lemma skill_use_energy:
  "skill_use sk a b p h = Inr (p', h') \<Longrightarrow> energy p' = energy p"
  by (auto simp: skill_use_def split: if_splits dest: apply_effect_energy)

lemma skill_select_energy:
  assumes "skill_select enemy n g = Inr (Inr g')"
  shows "energy (player g')
         = energy (player g) - energy_cost (learned_skills (player g) ! nat (n - 1))"
  using assms
  by (auto simp: skill_select_def Let_def prune_dead_def split: if_splits
      elim!: andthen_InrE dest!: skill_use_energy)




subsection \<open>The end of a fight\<close>

lemma defeat_rewards_cong: "rewards a = rewards b \<Longrightarrow> defeat_rewards a = defeat_rewards b"
  by (auto simp: rewards_def defeat_rewards_def fun_eq_iff)

text \<open>Resetting the two stats, as \<^verbatim>\<open>combat_round\<close> does after its loop.\<close>

definition reset_stats :: "player \<Rightarrow> player \<Rightarrow> player" where
  "reset_stats entry p = p\<lparr>speed := speed entry, defense := defense entry\<rparr>"

lemma combat_finish_player:
  assumes "combat_finish e (speed entry) (defense entry) g1 ins = Inr (g', ins')"
  shows "player g' =
           (if is_alive (player g1) \<and> \<not> is_alive (heap g1 ! e)
            then defeat_rewards (heap g1 ! e) (reset_stats entry (player g1))
            else reset_stats entry (player g1))"
    and "heap g' = heap g1"
  using assms
  by (auto simp: combat_finish_def Let_def reset_stats_def is_alive_def prune_dead_def
      split: if_splits elim!: andthen_InrE)

lemma combat_round_split:
  assumes "combat_round e g tape ins = Inr (g', tape', ins')"
  obtains active g1 ins1 where
    "combat_loop e (True, g, tape, ins) = Inr (active, g1, tape', ins1)"
    "combat_finish e (speed (player g)) (defense (player g)) g1 ins1 = Inr (g', ins')"
  using assms by (auto simp: combat_round_def elim!: andthen_InrE)

lemma add_xp_stats:
  "speed (add_xp a p) = speed p + (level (add_xp a p) - level p)"
  "defense (add_xp a p) = defense p + 2 * (level (add_xp a p) - level p)"
  "level (add_xp a p) = level p \<or> level (add_xp a p) = level p + 1"
  by (simp_all add: add_xp_def Let_def level_up_fields)

lemma defeat_rewards_stats:
  "speed (defeat_rewards en p) = speed p + (level (defeat_rewards en p) - level p)"
  "defense (defeat_rewards en p) = defense p + 2 * (level (defeat_rewards en p) - level p)"
  "level (defeat_rewards en p) = level p \<or> level (defeat_rewards en p) = level p + 1"
  using add_xp_stats[of "xp_value en" p]
  by (simp_all add: defeat_rewards_def Let_def split: option.splits)

lemma defeat_rewards_credits:
  "credits (defeat_rewards en p) = credits p + credit_value en"
  by (simp add: defeat_rewards_def Let_def add_xp_def level_up_fields split: option.splits)

text \<open>
  C7 (as stated, refuted). The soldier defeats the hunter with one attack. The loop ends,
  speed and defense are reset to 10 and 8, and then the 50 XP of the hunter level the
  player up inside \<^verbatim>\<open>combat_round\<close>: it returns with speed 11 and defense 10.
\<close>

theorem combat_round_level_up_counterexample:
  "speed (player fight_game) = 10 \<and> defense (player fight_game) = 8 \<and>
   (\<exists>g'. combat_round 1 fight_game [] [''a'', ''x''] = Inr (g', [], []) \<and>
         speed (player g') = 11 \<and> defense (player g') = 10 \<and> level (player g') = 2)"
  by (simp add: fight_defs combat_defs Let_def add_xp_def level_up_fields)

text \<open>
  C7 (amended). When \<^verbatim>\<open>combat_round\<close> returns, whatever happened in the fight (skill
  boosts, equipment changes), speed and defense are the values at entry plus what a
  level-up after the fight adds: the reset happens when the loop ends, and the XP of a
  defeated enemy is awarded after it, so a level-up gained from that XP adds its +1 speed
  and +2 defense on top. Without a level-up the two stats equal their entry values
  exactly.
\<close>

theorem combat_round_resets_stats:
  assumes "combat_round e g tape ins = Inr (g', tape', ins')"
  shows "speed (player g') = speed (player g) + (level (player g') - level (player g)) \<and>
         defense (player g') = defense (player g) + 2 * (level (player g') - level (player g)) \<and>
         (level (player g') = level (player g) \<or> level (player g') = level (player g) + 1)"
proof -
  from assms obtain active g1 ins1 where
    l: "combat_loop e (True, g, tape, ins) = Inr (active, g1, tape', ins1)"
    and f: "combat_finish e (speed (player g)) (defense (player g)) g1 ins1 = Inr (g', ins')"
    by (rule combat_round_split)
  from keeps_combat_loop[OF l, of e] have lv: "level (player g1) = level (player g)"
    by (simp add: keeps_def progress_def)
  let ?r = "reset_stats (player g) (player g1)"
  have r: "speed ?r = speed (player g)" "defense ?r = defense (player g)"
    "level ?r = level (player g)"
    by (simp_all add: reset_stats_def lv)
  show ?thesis
  proof (cases "is_alive (player g1) \<and> \<not> is_alive (heap g1 ! e)")
    case True
    with combat_finish_player(1)[OF f] have "player g' = defeat_rewards (heap g1 ! e) ?r"
      by simp
    with defeat_rewards_stats[of "heap g1 ! e" ?r] r show ?thesis by simp
  next
    case False
    with combat_finish_player(1)[OF f] have "player g' = ?r" by simp
    with r show ?thesis by simp
  qed
qed

text \<open>
  In the arena fight the soldier equips the Reinforced Vest (defense 8 to 12, the Scrap
  Armor going back to the inventory), then defeats the drone, whose 20 XP give no
  level-up. \<^verbatim>\<open>combat_round\<close> returns with defense 8 again, the vest still equipped.
\<close>

theorem combat_round_resets_stats_witness:
  "\<exists>g'. combat_round 0 fight_game [] [''i'', ''3'', ''a'', ''x''] = Inr (g', [], []) \<and>
      speed (player g') = speed (player fight_game) \<and>
      defense (player g') = defense (player fight_game) \<and>
      level (player g') = level (player fight_game) \<and>
      equipped_armor (player g') = Some \<lparr>oid = 2, cls = ReinforcedVest\<rparr>"
proof -
  have "\<exists>g'. combat_round 0 fight_game [] [''i'', ''3'', ''a'', ''x''] = Inr (g', [], []) \<and>
      level (player g') = level (player fight_game) \<and>
      equipped_armor (player g') = Some \<lparr>oid = 2, cls = ReinforcedVest\<rparr>"
    by (simp add: fight_defs combat_defs Let_def add_xp_def)
  then obtain g' where
    g': "combat_round 0 fight_game [] [''i'', ''3'', ''a'', ''x''] = Inr (g', [], [])"
    "level (player g') = level (player fight_game)"
    "equipped_armor (player g') = Some \<lparr>oid = 2, cls = ReinforcedVest\<rparr>"
    by blast
  from combat_round_resets_stats [OF g'(1)] g'(2)
  have "speed (player g') = speed (player fight_game)"
    "defense (player g') = defense (player fight_game)"
    by simp_all
  with g' show ?thesis by blast
qed


lemma skill_select_inventory:
  assumes "skill_select enemy n g = Inr (Inr g')"
  shows "inventory (player g') = inventory (player g)"
proof -
  have a: "apply_effect eff a p h = Inr (p', h') \<Longrightarrow> inventory p' = inventory p"
    for eff a p h p' h'
    by (cases "(eff, a, p, h)" rule: apply_effect.cases) (auto simp: Let_def split: if_splits)
  have u: "skill_use sk a b p h = Inr (p', h') \<Longrightarrow> inventory p' = inventory p"
    for sk a b p h p' h'
    by (auto simp: skill_use_def split: if_splits dest: a)
  from assms show ?thesis
    by (auto simp: skill_select_def Let_def prune_dead_def split: if_splits
        elim!: andthen_InrE dest!: u)
qed




section \<open>Verification: the level generator\<close>

subsection \<open>The pool of empty tiles\<close>

lemma filter_res_Inr:
  "filter_res P xs = Inr ys \<Longrightarrow> ys = filter (\<lambda>x. P x = Inr True) xs"
proof (induction xs arbitrary: ys)
  case Nil
  then show ?case by simp
next
  case (Cons a xs)
  from Cons.prems obtain b rest where
    b: "P a = Inr b" and r: "filter_res P xs = Inr rest" and y: "ys = (if b then a # rest else rest)"
    by (auto elim!: andthen_InrE)
  from Cons.IH[OF r] b y show ?case by auto
qed

lemma py_range_set [simp]: "set (py_range a b) = {i. a \<le> i \<and> i < b}"
  by (auto simp: py_range_def)

lemma py_range_distinct [simp]: "distinct (py_range a b)"
  by (simp add: py_range_def)

lemma grid_positions_distinct:
  "distinct xs \<Longrightarrow> distinct ys \<Longrightarrow>
   distinct (concat (map (\<lambda>ty. map (\<lambda>tx. (tx, ty)) xs) ys))"
  by (induction ys) (auto simp: distinct_map inj_on_def)

lemma grid_positions_set:
  "set (concat (map (\<lambda>ty. map (\<lambda>tx. (tx, ty)) xs) ys)) = set xs \<times> set ys"
  by (induction ys) auto

lemma all_positions_distinct: "distinct (all_positions m)"
  by (simp add: all_positions_def grid_positions_distinct)

lemma all_positions_set: "set (all_positions m) = {(tx, ty). in_bounds m tx ty}"
  by (auto simp: all_positions_def grid_positions_set in_bounds_def)

lemma find_empty_tiles_pool:
  assumes "find_empty_tiles m = Inr pool"
  shows "distinct pool"
    and "\<And>p. p \<in> set pool \<Longrightarrow>
           in_bounds m (fst p) (snd p) \<and> get_tile (tiles m) (fst p) (snd p) = Inr CHR ''.''"
proof -
  note f = filter_res_Inr[OF assms[unfolded find_empty_tiles_def]]
  show "distinct pool" unfolding f by (simp add: all_positions_distinct)
  fix p assume "p \<in> set pool"
  then have a: "p \<in> set (all_positions m)"
    and b: "(case p of (tx, ty) \<Rightarrow> andthen (get_tile (tiles m) tx ty) (\<lambda>c. Inr (c = CHR ''.''))) = Inr True"
    unfolding f by simp_all
  obtain tx ty where p: "p = (tx, ty)" by (cases p)
  from b have "get_tile (tiles m) tx ty = Inr CHR ''.''"
    unfolding p by (auto elim!: andthen_InrE)
  moreover from a have "in_bounds m tx ty"
    unfolding p by (simp add: all_positions_set)
  ultimately show "in_bounds m (fst p) (snd p) \<and> get_tile (tiles m) (fst p) (snd p) = Inr CHR ''.''"
    by (simp add: p)
qed

subsection \<open>Drawing tiles from the pool\<close>

lemma choice_member: "choice xs t = Inr (p, t') \<Longrightarrow> p \<in> set xs"
  by (auto split: if_splits list.splits)

lemma draw_tile_result:
  assumes "draw_tile s = Inr (p, s')"
  shows "p \<in> set (empty_tiles s)" and "empty_tiles s' = remove1 p (empty_tiles s)"
    and "gmap s' = gmap s" and "store s' = store s" and "fresh_oid s' = fresh_oid s"
  using assms
  by (auto simp: draw_tile_def simp del: choice.simps elim!: andthen_InrE dest: choice_member)

lemma mark_result:
  assumes "mark p c s = Inr s'"
  obtains t where "set_tile (tiles (gmap s)) (fst p) (snd p) c = Inr t"
    and "s' = s\<lparr>gmap := (gmap s)\<lparr>tiles := t\<rparr>\<rparr>"
  using assms by (auto simp: mark_def elim!: andthen_InrE)

text \<open>
  The bookkeeping of step 3: the placed positions \<open>F\<close> are distinct, the pool is
  distinct, the two are disjoint, and both come from the original pool \<open>E\<close>.
\<close>

definition apart :: "pos set \<Rightarrow> pos list \<Rightarrow> pos list \<Rightarrow> bool" where
  "apart E F pool \<longleftrightarrow>
     distinct F \<and> distinct pool \<and> set F \<inter> set pool = {} \<and> set F \<union> set pool \<subseteq> E"

lemma apart_take:
  assumes "apart E F pool" "p \<in> set pool"
  shows "apart E (F @ [p]) (remove1 p pool)"
  using assms by (auto simp: apart_def)

lemma apart_notin: "apart E F pool \<Longrightarrow> p \<in> set pool \<Longrightarrow> p \<notin> set F"
  by (auto simp: apart_def)


definition placed :: "placing \<Rightarrow> pos list" where
  "placed s = feature_positions (gmap s) (store s)"

definition tidy :: "pos set \<Rightarrow> placing \<Rightarrow> bool" where
  "tidy E s \<longleftrightarrow>
     apart E (placed s) (empty_tiles s) \<and> (\<forall>r \<in> set (entities (gmap s)). r < length (store s))"

lemma dict_set_keys:
  "k \<notin> fst ` set d \<Longrightarrow> map fst (dict_set k v d) = map fst d @ [k]"
  by (simp add: dict_set_def update_keys)

lemma trap_keys_placed: "fst ` set (traps_on_map (gmap s)) \<subseteq> set (placed s)"
  by (auto simp: placed_def feature_positions_def)

lemma item_keys_placed: "fst ` set (items_on_map (gmap s)) \<subseteq> set (placed s)"
  by (auto simp: placed_def feature_positions_def)

text \<open>Traps.\<close>

lemma place_traps_tidy:
  "place_traps k s = Inr s' \<Longrightarrow> tidy E s \<Longrightarrow>
   entities (gmap s) = [] \<Longrightarrow> items_on_map (gmap s) = [] \<Longrightarrow>
   tidy E s' \<and> entities (gmap s') = [] \<and> items_on_map (gmap s') = []"
proof (induction k arbitrary: s)
  case 0
  then show ?case by simp
next
  case (Suc k)
  show ?case
  proof (cases "empty_tiles s = []")
    case True
    with Suc.prems show ?thesis by simp
  next
    case False
    with Suc.prems(1) obtain tx ty s1 where
      d: "draw_tile s = Inr ((tx, ty), s1)"
      and r0: "place_traps k (s1\<lparr>gmap := (gmap s1)\<lparr>traps_on_map :=
                 dict_set (tx, ty) (Trap tx ty TRAP_DAMAGE_BASE) (traps_on_map (gmap s1))\<rparr>\<rparr>) = Inr s'"
      by (auto elim!: andthen_InrE)
    define s2 where "s2 = s1\<lparr>gmap := (gmap s1)\<lparr>traps_on_map :=
                 dict_set (tx, ty) (Trap tx ty TRAP_DAMAGE_BASE) (traps_on_map (gmap s1))\<rparr>\<rparr>"
    from r0 have r: "place_traps k s2 = Inr s'" by (simp add: s2_def)
    note dr = draw_tile_result[OF d]
    have f: "gmap s2 = (gmap s)\<lparr>traps_on_map :=
                 dict_set (tx, ty) (Trap tx ty TRAP_DAMAGE_BASE) (traps_on_map (gmap s))\<rparr>"
      "empty_tiles s2 = remove1 (tx, ty) (empty_tiles s)" "store s2 = store s"
      by (simp_all add: s2_def dr)
    from Suc.prems(2) have ap: "apart E (placed s) (empty_tiles s)" by (simp add: tidy_def)
    from apart_notin[OF ap dr(1)] trap_keys_placed[of s]
    have nk: "(tx, ty) \<notin> fst ` set (traps_on_map (gmap s))" by blast
    have pl: "placed s2 = placed s @ [(tx, ty)]"
      using Suc.prems(3,4) nk
      by (simp add: placed_def feature_positions_def f dict_set_keys)
    have "tidy E s2"
      using apart_take[OF ap dr(1)] Suc.prems(3)
      by (simp add: tidy_def pl f)
    moreover have "entities (gmap s2) = []" "items_on_map (gmap s2) = []"
      using Suc.prems(3,4) by (simp_all add: f)
    ultimately show ?thesis using Suc.IH[OF r] by blast
  qed
qed


text \<open>What the loops over traps, enemies, items and crystals never touch.\<close>

definition ground :: "game_map \<Rightarrow> int \<times> int \<times> char list list \<times> pos \<times> pos \<times> pos option" where
  "ground m = (width m, height m, tiles m, player_start m, exit_location m, shop_location m)"

lemma ground_updates [simp]:
  "ground (m\<lparr>traps_on_map := a\<rparr>) = ground m" "ground (m\<lparr>entities := b\<rparr>) = ground m"
  "ground (m\<lparr>items_on_map := c\<rparr>) = ground m"
  by (simp_all add: ground_def)

lemma place_traps_ground: "place_traps k s = Inr s' \<Longrightarrow> ground (gmap s') = ground (gmap s)"
proof (induction k arbitrary: s)
  case 0
  then show ?case by simp
next
  case (Suc k)
  show ?case
  proof (cases "empty_tiles s = []")
    case True
    with Suc.prems show ?thesis by simp
  next
    case False
    with Suc.prems obtain tx ty s1 where
      d: "draw_tile s = Inr ((tx, ty), s1)"
      and r: "place_traps k (s1\<lparr>gmap := (gmap s1)\<lparr>traps_on_map :=
                 dict_set (tx, ty) (Trap tx ty TRAP_DAMAGE_BASE) (traps_on_map (gmap s1))\<rparr>\<rparr>) = Inr s'"
      by (auto elim!: andthen_InrE)
    from Suc.IH[OF r] draw_tile_result(3)[OF d] show ?thesis by simp
  qed
qed

text \<open>Enemies.\<close>

lemma place_enemies_tidy:
  "place_enemies pl k s = Inr s' \<Longrightarrow> tidy E s \<Longrightarrow> items_on_map (gmap s) = [] \<Longrightarrow>
   tidy E s' \<and> items_on_map (gmap s') = [] \<and> ground (gmap s') = ground (gmap s)"
proof (induction k arbitrary: s)
  case 0
  then show ?case by simp
next
  case (Suc k)
  show ?case
  proof (cases "empty_tiles s = []")
    case True
    with Suc.prems show ?thesis by simp
  next
    case False
    with Suc.prems(1) obtain ex ey s1 enemy nxt tape' where
      d: "draw_tile s = Inr ((ex, ey), s1)"
      and r0: "place_enemies pl k
                 (s1\<lparr>store := store s1 @ [enemy\<lparr>pos_x := ex, pos_y := ey\<rparr>],
                     gmap := (gmap s1)\<lparr>entities := entities (gmap s1) @ [length (store s1)]\<rparr>,
                     fresh_oid := nxt, draws := tape'\<rparr>) = Inr s'"
      by (auto elim!: andthen_InrE)
    define s2 where "s2 = s1\<lparr>store := store s1 @ [enemy\<lparr>pos_x := ex, pos_y := ey\<rparr>],
                     gmap := (gmap s1)\<lparr>entities := entities (gmap s1) @ [length (store s1)]\<rparr>,
                     fresh_oid := nxt, draws := tape'\<rparr>"
    from r0 have r: "place_enemies pl k s2 = Inr s'" by (simp add: s2_def)
    note dr = draw_tile_result[OF d]
    have f: "gmap s2 = (gmap s)\<lparr>entities := entities (gmap s) @ [length (store s)]\<rparr>"
      "empty_tiles s2 = remove1 (ex, ey) (empty_tiles s)"
      "store s2 = store s @ [enemy\<lparr>pos_x := ex, pos_y := ey\<rparr>]"
      by (simp_all add: s2_def dr)
    from Suc.prems(2) have ap: "apart E (placed s) (empty_tiles s)"
      and refs: "\<forall>r \<in> set (entities (gmap s)). r < length (store s)"
      by (simp_all add: tidy_def)
    from refs have old: "map (enemy_position (store s @ [enemy\<lparr>pos_x := ex, pos_y := ey\<rparr>]))
                           (entities (gmap s))
                         = map (enemy_position (store s)) (entities (gmap s))"
      by (simp add: enemy_position_def nth_append)
    have pl: "placed s2 = placed s @ [(ex, ey)]"
      using Suc.prems(3) old
      by (simp add: placed_def feature_positions_def f enemy_position_def)
    have "tidy E s2"
      using apart_take[OF ap dr(1)] refs
      by (auto simp: tidy_def pl f)
    moreover have "items_on_map (gmap s2) = []" "ground (gmap s2) = ground (gmap s)"
      using Suc.prems(3) by (simp_all add: f)
    ultimately show ?thesis using Suc.IH[OF r] by simp
  qed
qed

text \<open>Items and crystals.\<close>

lemma place_item_at:
  assumes dr: "p \<in> set (empty_tiles s)" and t: "tidy E s"
    and f: "gmap s2 = (gmap s)\<lparr>items_on_map := dict_set p it (items_on_map (gmap s))\<rparr>"
      "empty_tiles s2 = remove1 p (empty_tiles s)" "store s2 = store s"
  shows "tidy E s2 \<and> ground (gmap s2) = ground (gmap s)"
proof -
  from t have ap: "apart E (placed s) (empty_tiles s)"
    and refs: "\<forall>r \<in> set (entities (gmap s)). r < length (store s)"
    by (simp_all add: tidy_def)
  from apart_notin[OF ap dr] item_keys_placed[of s]
  have nk: "p \<notin> fst ` set (items_on_map (gmap s))" by blast
  have pl: "placed s2 = placed s @ [p]"
    using nk by (simp add: placed_def feature_positions_def f dict_set_keys)
  show ?thesis
    using apart_take[OF ap dr] refs by (simp add: tidy_def pl f)
qed

lemma place_items_tidy:
  "place_items k s = Inr s' \<Longrightarrow> tidy E s \<Longrightarrow>
   tidy E s' \<and> ground (gmap s') = ground (gmap s)"
proof (induction k arbitrary: s)
  case 0
  then show ?case by simp
next
  case (Suc k)
  show ?case
  proof (cases "empty_tiles s = []")
    case True
    with Suc.prems show ?thesis by simp
  next
    case False
    with Suc.prems(1) obtain p s1 it nxt tape' where
      d: "draw_tile s = Inr (p, s1)"
      and r0: "place_items k
                 (s1\<lparr>gmap := (gmap s1)\<lparr>items_on_map := dict_set p it (items_on_map (gmap s1))\<rparr>,
                     fresh_oid := nxt, draws := tape'\<rparr>) = Inr s'"
      by (auto elim!: andthen_InrE)
    define s2 where "s2 = s1\<lparr>gmap := (gmap s1)\<lparr>items_on_map := dict_set p it (items_on_map (gmap s1))\<rparr>,
                     fresh_oid := nxt, draws := tape'\<rparr>"
    from r0 have r: "place_items k s2 = Inr s'" by (simp add: s2_def)
    note dr = draw_tile_result[OF d]
    have f: "gmap s2 = (gmap s)\<lparr>items_on_map := dict_set p it (items_on_map (gmap s))\<rparr>"
      "empty_tiles s2 = remove1 p (empty_tiles s)" "store s2 = store s"
      by (simp_all add: s2_def dr)
    from place_item_at[OF dr(1) Suc.prems(2) f] Suc.IH[OF r] show ?thesis by simp
  qed
qed

lemma place_crystals_tidy:
  "place_crystals chance k s = Inr s' \<Longrightarrow> tidy E s \<Longrightarrow>
   tidy E s' \<and> ground (gmap s') = ground (gmap s)"
proof (induction k arbitrary: s)
  case 0
  then show ?case by simp
next
  case (Suc k)
  show ?case
  proof (cases "empty_tiles s = []")
    case True
    with Suc.prems show ?thesis by simp
  next
    case False
    with Suc.prems(1) obtain spawn tape' where
      c: "(if spawn then
               andthen (draw_tile (s\<lparr>draws := tape'\<rparr>)) (\<lambda>(p, s).
                 place_crystals chance k
                   (s\<lparr>gmap := (gmap s)\<lparr>items_on_map :=
                        dict_set p \<lparr>oid = fresh_oid s, cls = EnergyCrystal\<rparr>
                          (items_on_map (gmap s))\<rparr>,
                      fresh_oid := Suc (fresh_oid s)\<rparr>))
             else place_crystals chance k (s\<lparr>draws := tape'\<rparr>)) = Inr s'"
      by (auto elim!: andthen_InrE)
    have t0: "tidy E (s\<lparr>draws := tape'\<rparr>)"
      using Suc.prems(2) by (simp add: tidy_def placed_def)
    show ?thesis
    proof (cases spawn)
      case False
      with c Suc.IH[OF _ t0] show ?thesis by simp
    next
      case True
      with c obtain p s1 where
        d: "draw_tile (s\<lparr>draws := tape'\<rparr>) = Inr (p, s1)"
        and r0: "place_crystals chance k
                   (s1\<lparr>gmap := (gmap s1)\<lparr>items_on_map :=
                        dict_set p \<lparr>oid = fresh_oid s1, cls = EnergyCrystal\<rparr>
                          (items_on_map (gmap s1))\<rparr>,
                      fresh_oid := Suc (fresh_oid s1)\<rparr>) = Inr s'"
        by (auto elim!: andthen_InrE)
      define s2 where "s2 = s1\<lparr>gmap := (gmap s1)\<lparr>items_on_map :=
                        dict_set p \<lparr>oid = fresh_oid s1, cls = EnergyCrystal\<rparr>
                          (items_on_map (gmap s1))\<rparr>,
                      fresh_oid := Suc (fresh_oid s1)\<rparr>"
      from r0 have r: "place_crystals chance k s2 = Inr s'" by (simp add: s2_def)
      note dr = draw_tile_result[OF d]
      have f: "gmap s2 = (gmap (s\<lparr>draws := tape'\<rparr>))\<lparr>items_on_map :=
                 dict_set p \<lparr>oid = fresh_oid s1, cls = EnergyCrystal\<rparr>
                   (items_on_map (gmap (s\<lparr>draws := tape'\<rparr>)))\<rparr>"
        "empty_tiles s2 = remove1 p (empty_tiles (s\<lparr>draws := tape'\<rparr>))"
        "store s2 = store (s\<lparr>draws := tape'\<rparr>)"
        by (simp_all add: s2_def dr)
      from place_item_at[OF dr(1) t0 f] Suc.IH[OF r] show ?thesis by simp
    qed
  qed
qed


text \<open>The start, the exit and the shop.\<close>

lemma place_player_result:
  assumes "place_player s = Inr s'"
  obtains p t where "p \<in> set (empty_tiles s)"
    and "set_tile (tiles (gmap s)) (fst p) (snd p) CHR ''P'' = Inr t"
    and "gmap s' = (gmap s)\<lparr>player_start := p, tiles := t\<rparr>"
    and "empty_tiles s' = remove1 p (empty_tiles s)" and "store s' = store s"
proof -
  from assms obtain p s1 where d: "draw_tile s = Inr (p, s1)"
    and m: "mark p CHR ''P'' (s1\<lparr>gmap := (gmap s1)\<lparr>player_start := p\<rparr>\<rparr>) = Inr s'"
    by (auto simp: place_player_def elim!: andthen_InrE)
  note dr = draw_tile_result[OF d]
  from m obtain t where
    "set_tile (tiles (gmap (s1\<lparr>gmap := (gmap s1)\<lparr>player_start := p\<rparr>\<rparr>))) (fst p) (snd p) CHR ''P'' = Inr t"
    "s' = (s1\<lparr>gmap := (gmap s1)\<lparr>player_start := p\<rparr>\<rparr>)\<lparr>gmap :=
            (gmap (s1\<lparr>gmap := (gmap s1)\<lparr>player_start := p\<rparr>\<rparr>))\<lparr>tiles := t\<rparr>\<rparr>"
    by (rule mark_result)
  then have "set_tile (tiles (gmap s)) (fst p) (snd p) CHR ''P'' = Inr t"
    "gmap s' = (gmap s)\<lparr>player_start := p, tiles := t\<rparr>"
    "empty_tiles s' = remove1 p (empty_tiles s)" "store s' = store s"
    by (simp_all add: dr)
  with dr(1) that show ?thesis by blast
qed

lemma place_exit_loop_result:
  "place_exit_loop s tp = Inr s' \<Longrightarrow>
   \<exists>q t. q \<in> set (empty_tiles s) \<and>
     set_tile (tiles (gmap s)) (fst q) (snd q) CHR ''E'' = Inr t \<and>
     gmap s' = (gmap s)\<lparr>exit_location := q, tiles := t\<rparr> \<and>
     empty_tiles s' = remove1 q (empty_tiles s) \<and> store s' = store s"
proof (induction tp arbitrary: s)
  case Nil
  then show ?case by (auto elim!: andthen_InrE)
next
  case (Cons d tp)
  from Cons.prems obtain q t0 where c: "choice (empty_tiles s) (d # tp) = Inr (q, t0)"
    and k: "(let s1 = s\<lparr>gmap := (gmap s)\<lparr>exit_location := q\<rparr>\<rparr>
             in if far_enough (gmap s1) q then
                  mark q CHR ''E'' (s1\<lparr>empty_tiles := remove1 q (empty_tiles s1), draws := tp\<rparr>)
                else place_exit_loop s1 tp) = Inr s'"
    by (auto simp del: choice.simps elim!: andthen_InrE)
  define s1 where "s1 = s\<lparr>gmap := (gmap s)\<lparr>exit_location := q\<rparr>\<rparr>"
  show ?case
  proof (cases "far_enough (gmap s1) q")
    case True
    with k have "mark q CHR ''E'' (s1\<lparr>empty_tiles := remove1 q (empty_tiles s1), draws := tp\<rparr>) = Inr s'"
      by (simp add: s1_def Let_def)
    then obtain t where "set_tile (tiles (gmap s)) (fst q) (snd q) CHR ''E'' = Inr t"
      "s' = (s1\<lparr>empty_tiles := remove1 q (empty_tiles s1), draws := tp\<rparr>)\<lparr>gmap :=
              (gmap s1)\<lparr>tiles := t\<rparr>\<rparr>"
      by (rule mark_result) (simp_all add: s1_def)
    with choice_member[OF c] show ?thesis
      by (intro exI[of _ q] exI[of _ t]) (simp add: s1_def)
  next
    case False
    with k have "place_exit_loop s1 tp = Inr s'" by (simp add: s1_def Let_def)
    from Cons.IH[OF this] show ?thesis by (auto simp: s1_def)
  qed
qed

lemma place_shop_loop_result:
  "place_shop_loop s tp = Inr s' \<Longrightarrow>
   \<exists>q t. q \<in> set (empty_tiles s) \<and>
     set_tile (tiles (gmap s)) (fst q) (snd q) CHR ''S'' = Inr t \<and>
     gmap s' = (gmap s)\<lparr>shop_location := Some q, tiles := t\<rparr> \<and>
     empty_tiles s' = remove1 q (empty_tiles s) \<and> store s' = store s"
proof (induction tp arbitrary: s)
  case Nil
  then show ?case by (auto elim!: andthen_InrE)
next
  case (Cons d tp)
  from Cons.prems obtain q t0 where c: "choice (empty_tiles s) (d # tp) = Inr (q, t0)"
    and k: "(if q \<noteq> player_start (gmap s) \<and> q \<noteq> exit_location (gmap s) then
         mark q CHR ''S''
           (s\<lparr>empty_tiles := remove1 q (empty_tiles s), draws := tp,
              gmap := (gmap s)\<lparr>shop_location := Some q\<rparr>\<rparr>)
       else place_shop_loop s tp) = Inr s'"
    by (auto simp del: choice.simps elim!: andthen_InrE)
  show ?case
  proof (cases "q \<noteq> player_start (gmap s) \<and> q \<noteq> exit_location (gmap s)")
    case True
    with k have "mark q CHR ''S''
           (s\<lparr>empty_tiles := remove1 q (empty_tiles s), draws := tp,
              gmap := (gmap s)\<lparr>shop_location := Some q\<rparr>\<rparr>) = Inr s'"
      by simp
    then obtain t where "set_tile (tiles (gmap s)) (fst q) (snd q) CHR ''S'' = Inr t"
      "s' = (s\<lparr>empty_tiles := remove1 q (empty_tiles s), draws := tp,
              gmap := (gmap s)\<lparr>shop_location := Some q\<rparr>\<rparr>)\<lparr>gmap :=
              ((gmap s)\<lparr>shop_location := Some q\<rparr>)\<lparr>tiles := t\<rparr>\<rparr>"
      by (rule mark_result) simp_all
    with choice_member[OF c] show ?thesis
      by (intro exI[of _ q] exI[of _ t]) simp
  next
    case False
    with k have "place_shop_loop s tp = Inr s'" by auto
    from Cons.IH[OF this] show ?thesis .
  qed
qed


subsection \<open>Step 3 as a whole\<close>

lemma tidy_draws [simp]: "tidy E (s\<lparr>draws := t\<rparr>) = tidy E s"
  by (simp add: tidy_def placed_def)

lemma place_features_tidy:
  assumes run: "place_features pl lv sh s0 = Inr s"
    and pool: "distinct (empty_tiles s0)"
    and fresh: "entities (gmap s0) = []" "items_on_map (gmap s0) = []"
      "traps_on_map (gmap s0) = []" "shop_location (gmap s0) = None"
  shows "tidy (set (empty_tiles s0)) s"
proof -
  let ?E = "set (empty_tiles s0)"
  from run obtain s1 where 1: "place_player s0 = Inr s1"
    and r1: "andthen (place_exit s1) (\<lambda>s.
     andthen (place_shop sh s) (\<lambda>s.
     andthen (place_traps (nat ((int (length (empty_tiles s)) * 33) div 1000)) s) (\<lambda>s.
     andthen (randint 1 MAX_ENEMIES_PER_LEVEL (draws s)) (\<lambda>(num_enemies, tape').
     andthen (place_enemies pl (nat num_enemies) (s\<lparr>draws := tape'\<rparr>)) (\<lambda>s.
     andthen (randint 0 MAX_ITEMS_PER_LEVEL (draws s)) (\<lambda>(num_items, tape').
     andthen (place_items (nat num_items) (s\<lparr>draws := tape'\<rparr>)) (\<lambda>s.
     andthen (randint 0 2 (draws s)) (\<lambda>(tries, tape').
       place_crystals (2 / 100 + of_int lv * (5 / 1000)) (nat tries)
         (s\<lparr>draws := tape'\<rparr>))))))))) = Inr s"
    unfolding place_features_def by (rule andthen_InrE)
  from r1 obtain s2 where 2: "place_exit s1 = Inr s2"
    and r2: "andthen (place_shop sh s2) (\<lambda>s.
     andthen (place_traps (nat ((int (length (empty_tiles s)) * 33) div 1000)) s) (\<lambda>s.
     andthen (randint 1 MAX_ENEMIES_PER_LEVEL (draws s)) (\<lambda>(num_enemies, tape').
     andthen (place_enemies pl (nat num_enemies) (s\<lparr>draws := tape'\<rparr>)) (\<lambda>s.
     andthen (randint 0 MAX_ITEMS_PER_LEVEL (draws s)) (\<lambda>(num_items, tape').
     andthen (place_items (nat num_items) (s\<lparr>draws := tape'\<rparr>)) (\<lambda>s.
     andthen (randint 0 2 (draws s)) (\<lambda>(tries, tape').
       place_crystals (2 / 100 + of_int lv * (5 / 1000)) (nat tries)
         (s\<lparr>draws := tape'\<rparr>)))))))) = Inr s"
    by (rule andthen_InrE)
  from r2 obtain s3 where 3: "place_shop sh s2 = Inr s3"
    and r3: "andthen (place_traps (nat ((int (length (empty_tiles s3)) * 33) div 1000)) s3) (\<lambda>s.
     andthen (randint 1 MAX_ENEMIES_PER_LEVEL (draws s)) (\<lambda>(num_enemies, tape').
     andthen (place_enemies pl (nat num_enemies) (s\<lparr>draws := tape'\<rparr>)) (\<lambda>s.
     andthen (randint 0 MAX_ITEMS_PER_LEVEL (draws s)) (\<lambda>(num_items, tape').
     andthen (place_items (nat num_items) (s\<lparr>draws := tape'\<rparr>)) (\<lambda>s.
     andthen (randint 0 2 (draws s)) (\<lambda>(tries, tape').
       place_crystals (2 / 100 + of_int lv * (5 / 1000)) (nat tries)
         (s\<lparr>draws := tape'\<rparr>))))))) = Inr s"
    by (rule andthen_InrE)
  from r3 obtain s4 where
    4: "place_traps (nat ((int (length (empty_tiles s3)) * 33) div 1000)) s3 = Inr s4"
    and r4: "andthen (randint 1 MAX_ENEMIES_PER_LEVEL (draws s4)) (\<lambda>(num_enemies, tape').
     andthen (place_enemies pl (nat num_enemies) (s4\<lparr>draws := tape'\<rparr>)) (\<lambda>s.
     andthen (randint 0 MAX_ITEMS_PER_LEVEL (draws s)) (\<lambda>(num_items, tape').
     andthen (place_items (nat num_items) (s\<lparr>draws := tape'\<rparr>)) (\<lambda>s.
     andthen (randint 0 2 (draws s)) (\<lambda>(tries, tape').
       place_crystals (2 / 100 + of_int lv * (5 / 1000)) (nat tries)
         (s\<lparr>draws := tape'\<rparr>)))))) = Inr s"
    by (rule andthen_InrE)
  from r4 obtain ne t5 s6 where
    5: "place_enemies pl (nat ne) (s4\<lparr>draws := t5\<rparr>) = Inr s6"
    and r6: "andthen (randint 0 MAX_ITEMS_PER_LEVEL (draws s6)) (\<lambda>(num_items, tape').
     andthen (place_items (nat num_items) (s6\<lparr>draws := tape'\<rparr>)) (\<lambda>s.
     andthen (randint 0 2 (draws s)) (\<lambda>(tries, tape').
       place_crystals (2 / 100 + of_int lv * (5 / 1000)) (nat tries)
         (s\<lparr>draws := tape'\<rparr>)))) = Inr s"
    by (elim andthen_InrE) (auto simp del: randint.simps elim!: andthen_InrE)
  from r6 obtain ni t7 s8 where
    6: "place_items (nat ni) (s6\<lparr>draws := t7\<rparr>) = Inr s8"
    and r8: "andthen (randint 0 2 (draws s8)) (\<lambda>(tries, tape').
       place_crystals (2 / 100 + of_int lv * (5 / 1000)) (nat tries)
         (s8\<lparr>draws := tape'\<rparr>)) = Inr s"
    by (elim andthen_InrE) (auto simp del: randint.simps elim!: andthen_InrE)
  from r8 obtain nc t9 where
    7: "place_crystals (2 / 100 + of_int lv * (5 / 1000)) (nat nc) (s8\<lparr>draws := t9\<rparr>) = Inr s"
    by (elim andthen_InrE) (auto simp del: randint.simps)
  from 1 obtain p t1 where p: "p \<in> ?E"
    and g1: "gmap s1 = (gmap s0)\<lparr>player_start := p, tiles := t1\<rparr>"
    and e1: "empty_tiles s1 = remove1 p (empty_tiles s0)" and h1: "store s1 = store s0"
    by (rule place_player_result)
  from place_exit_loop_result[OF 2[unfolded place_exit_def]] obtain q t2 where
    q: "q \<in> set (empty_tiles s1)"
    and g2: "gmap s2 = (gmap s1)\<lparr>exit_location := q, tiles := t2\<rparr>"
    and e2: "empty_tiles s2 = remove1 q (empty_tiles s1)" and h2: "store s2 = store s1"
    by blast
  have pl2: "placed s2 = [p, q]"
    using fresh by (simp add: placed_def feature_positions_def g1 g2)
  have t2: "tidy ?E s2"
    using pool p q fresh
    by (auto simp: tidy_def apart_def pl2 e1 e2 g1 g2 dest: notin_set_remove1)
  have z2: "entities (gmap s2) = []" "items_on_map (gmap s2) = []" "traps_on_map (gmap s2) = []"
    using fresh by (simp_all add: g1 g2)
  have t3: "tidy ?E s3 \<and> entities (gmap s3) = [] \<and> items_on_map (gmap s3) = []"
  proof (cases sh)
    case False
    with 3 t2 z2 show ?thesis by (simp add: place_shop_def)
  next
    case True
    with 3 have "place_shop_loop s2 (draws s2) = Inr s3" by (simp add: place_shop_def)
    from place_shop_loop_result[OF this] obtain r t3 where
      r: "r \<in> set (empty_tiles s2)"
      and g3: "gmap s3 = (gmap s2)\<lparr>shop_location := Some r, tiles := t3\<rparr>"
      and e3: "empty_tiles s3 = remove1 r (empty_tiles s2)" and h3: "store s3 = store s2"
      by blast
    have pl3: "placed s3 = placed s2 @ [r]"
      using fresh by (simp add: placed_def feature_positions_def g1 g2 g3)
    from t2 have ap: "apart ?E (placed s2) (empty_tiles s2)" by (simp add: tidy_def)
    from apart_take[OF ap r] z2 show ?thesis
      by (simp add: tidy_def pl3 e3 g3)
  qed
  from place_traps_tidy[OF 4, of ?E] t3
  have t4: "tidy ?E s4" "entities (gmap s4) = []" "items_on_map (gmap s4) = []" by blast+
  from place_enemies_tidy[OF 5, of ?E] t4 have t6: "tidy ?E s6" "items_on_map (gmap s6) = []"
    by simp_all
  from place_items_tidy[OF 6, of ?E] t6 have t8: "tidy ?E s8" by simp
  from place_crystals_tidy[OF 7, of ?E] t8 show ?thesis by simp
qed

subsection \<open>Unfolding \<^verbatim>\<open>generate_map\<close>\<close>

text \<open>Everything of a map that carving leaves alone.\<close>

definition furniture ::
  "game_map \<Rightarrow> int \<times> int \<times> pos \<times> pos \<times> pos option \<times> nat list \<times> (pos \<times> item) list \<times> (pos \<times> trap) list" where
  "furniture m = (width m, height m, player_start m, exit_location m, shop_location m,
                  entities m, items_on_map m, traps_on_map m)"

lemma furniture_updates [simp]:
  "furniture (m\<lparr>rooms := r\<rparr>) = furniture m" "furniture (m\<lparr>tiles := t\<rparr>) = furniture m"
  by (simp_all add: furniture_def)

lemma try_room_furniture: "try_room r m = Inr m' \<Longrightarrow> furniture m' = furniture m"
  by (auto simp: try_room_def split: if_splits elim!: andthen_InrE)

lemma place_rooms_furniture:
  "place_rooms k m tape = Inr (m', tape') \<Longrightarrow> furniture m' = furniture m"
proof (induction k arbitrary: m tape)
  case 0
  then show ?case by simp
next
  case (Suc k)
  from Suc.prems obtain nr t4 m1 where
    t: "try_room nr m = Inr m1" and r: "place_rooms k m1 t4 = Inr (m', tape')"
    by (auto elim!: andthen_InrE)
  from Suc.IH[OF r] try_room_furniture[OF t] show ?case by simp
qed

lemma carve_map_furniture:
  assumes "carve_map self tape = Inr (m, tape')"
  shows "furniture m = (width self, height self, player_start self, exit_location self,
                        None, [], [], [])"
proof -
  let ?m0 = "self\<lparr>tiles := wall_grid (width self) (height self), entities := [],
                   items_on_map := [], traps_on_map := [], rooms := [], shop_location := None\<rparr>"
  from assms obtain m1 where p: "place_rooms MAX_ROOMS ?m0 tape = Inr (m1, tape')"
    and m: "furniture m = furniture m1"
    unfolding carve_map_def Let_def
    by (elim andthen_InrE) (auto split: if_splits elim!: andthen_InrE)
  from place_rooms_furniture[OF p] m show ?thesis by (simp add: furniture_def)
qed

lemma generate_map_unfold:
  "generate_map self pl lv sh h n tape = Inr s \<Longrightarrow>
   \<exists>self' tape0 m tape1 pool.
     width self' = width self \<and> height self' = height self \<and>
     carve_map self' tape0 = Inr (m, tape1) \<and> find_empty_tiles m = Inr pool \<and> pool \<noteq> [] \<and>
     place_features pl lv sh
       \<lparr>gmap = m, empty_tiles = pool, store = h, fresh_oid = n, draws = tape1\<rparr> = Inr s"
proof (induction self pl lv sh h n tape rule: generate_map.induct)
  case (1 self pl lv sh h n tape)
  from "1.prems" obtain m tape1 pool where
    c: "carve_map self tape = Inr (m, tape1)" and f: "find_empty_tiles m = Inr pool"
    and k: "(if pool = [] then generate_map m pl lv sh h n tape1
             else place_features pl lv sh
               \<lparr>gmap = m, empty_tiles = pool, store = h, fresh_oid = n, draws = tape1\<rparr>) = Inr s"
    by (subst (asm) generate_map.simps) (auto elim!: andthen_InrE)
  show ?case
  proof (cases "pool = []")
    case False
    with c f k show ?thesis by (intro exI[of _ self] exI[of _ tape] exI[of _ m] exI[of _ tape1] exI[of _ pool]) simp
  next
    case True
    with k have "generate_map m pl lv sh h n tape1 = Inr s" by simp
    from "1.IH"[OF c refl f True this] carve_map_furniture[OF c]
    show ?thesis by (auto simp: furniture_def)
  qed
qed

end
